theory Spec2Isabelle
  imports Main
begin

section \<open>JavaScript values and strings\<close>

text \<open>
  Request bodies, token payloads and the cells of result rows are JavaScript values.
  The numbers of the model are the integers. A string is the list of the UTF-8 bytes of
  its text. An object is an association list whose first binding of a key counts; it is
  a plain object as \<^verbatim>\<open>JSON.parse\<close> builds it, so its properties are never functions.
\<close>

datatype jsval =
    JUndefined
  | JNull
  | JBool bool
  | JNum int
  | JStr string
  | JArr "jsval list"
  | JObj "(string \<times> jsval) list"

text \<open>Truthiness, as tested by \<^verbatim>\<open>!x\<close>, \<^verbatim>\<open>x || y\<close> and \<^verbatim>\<open>x ? a : b\<close>.\<close>

fun truthy :: "jsval \<Rightarrow> bool" where
  "truthy JUndefined = False"
| "truthy JNull = False"
| "truthy (JBool b) = b"
| "truthy (JNum n) = (n \<noteq> 0)"
| "truthy (JStr s) = (s \<noteq> [])"
| "truthy (JArr _) = True"
| "truthy (JObj _) = True"

text \<open>Property access \<^verbatim>\<open>o.k\<close> (and destructuring): undefined on anything but an
  object that has the key.\<close>

fun field :: "jsval \<Rightarrow> string \<Rightarrow> jsval" where
  "field (JObj kvs) k = (case map_of kvs k of Some v \<Rightarrow> v | None \<Rightarrow> JUndefined)"
| "field _ k = JUndefined"

text \<open>The text of a value that \<^verbatim>\<open>typeof\<close> has shown to be a string.\<close>

fun the_string :: "jsval \<Rightarrow> string" where
  "the_string (JStr s) = s"
| "the_string _ = []"

text \<open>
  \<^verbatim>\<open>s.length\<close> counts UTF-16 code units: one for every character of the text and one
  more for a character beyond the basic plane. In UTF-8 every character starts with one
  byte that is not a continuation byte (not in 0x80 to 0xBF), and the characters beyond
  the basic plane are those that start with a byte from 0xF0 on.
\<close>

definition js_length :: "string \<Rightarrow> nat" where
  "js_length s =
     length (filter (\<lambda>c. (of_char c :: nat) < 128 \<or> 192 \<le> (of_char c :: nat)) s)
     + length (filter (\<lambda>c. 240 \<le> (of_char c :: nat)) s)"

text \<open>A thrown error object: its \<^verbatim>\<open>name\<close>, \<^verbatim>\<open>code\<close>, \<^verbatim>\<open>message\<close> and
  \<^verbatim>\<open>detail\<close> properties (code and detail may be undefined).\<close>

record js_error =
  ename :: string
  code :: "string option"
  message :: string
  detail :: "string option"

section \<open>The environment of a request\<close>

text \<open>
  The runtime, the libraries and the process environment the handlers call; their
  results are inputs of the model:
  \<^item> bcryptjs: \<^verbatim>\<open>bcrypt.hash(password, rounds)\<close> and
    \<^verbatim>\<open>bcrypt.compare(password, hash)\<close>, which may reject;
  \<^item> \<^verbatim>\<open>crypto.randomBytes(16).toString('hex')\<close>;
  \<^item> jsonwebtoken with the secret of the process: \<^verbatim>\<open>jwt.sign(payload, secret,
    {expiresIn})\<close> and \<^verbatim>\<open>jwt.verify(token, secret)\<close>, which throw;
  \<^item> \<^verbatim>\<open>process.env.NODE_ENV\<close>;
  \<^item> \<^verbatim>\<open>String.prototype.toLowerCase\<close>, which follows the Unicode case mapping;
  \<^item> \<^verbatim>\<open>Number.prototype.toString\<close>, the numeral \<^verbatim>\<open>String(n)\<close> prints for a
    number.
\<close>

record env =
  bcrypt_hash :: "string \<Rightarrow> nat \<Rightarrow> string"
  bcrypt_compare :: "jsval \<Rightarrow> jsval \<Rightarrow> js_error + bool"
  random_hex :: string
  jwt_sign :: "jsval \<Rightarrow> string \<Rightarrow> js_error + string"
  jwt_verify :: "string \<Rightarrow> js_error + jsval"
  node_env :: "string option"
  toLowerCase :: "string \<Rightarrow> string"
  number_toString :: "int \<Rightarrow> string"

section \<open>String conversion and the string functions the code uses\<close>

fun join_with :: "string \<Rightarrow> string list \<Rightarrow> string" where
  "join_with sep [] = []"
| "join_with sep [x] = x"
| "join_with sep (x # y # ys) = x @ sep @ join_with sep (y # ys)"

text \<open>The results of converting the elements of an array one after the other: the
  first conversion that throws ends it.\<close>

fun collect :: "(js_error + string) list \<Rightarrow> js_error + string list" where
  "collect [] = Inr []"
| "collect (Inl e # rs) = Inl e"
| "collect (Inr s # rs) = (case collect rs of Inl e \<Rightarrow> Inl e | Inr ss \<Rightarrow> Inr (s # ss))"

text \<open>The TypeError of a conversion that finds no primitive value.\<close>

definition cannot_convert :: js_error where
  "cannot_convert =
     \<lparr>ename = ''TypeError'', code = None,
      message = ''Cannot convert object to primitive value'', detail = None\<rparr>"

text \<open>
  \<^verbatim>\<open>String(v)\<close>, also the conversion of a template literal's hole. An array joins the
  conversions of its elements with commas, null and undefined elements giving the empty
  string. A plain object is converted by \<^verbatim>\<open>toString\<close> and then \<^verbatim>\<open>valueOf\<close>: with
  an own property \<^verbatim>\<open>toString\<close> (never a function here) neither the property nor
  \<^verbatim>\<open>valueOf\<close> yields a primitive value and the conversion throws; otherwise
  \<^verbatim>\<open>Object.prototype.toString\<close> answers.
\<close>

fun js_String :: "env \<Rightarrow> jsval \<Rightarrow> js_error + string" where
  "js_String env JUndefined = Inr ''undefined''"
| "js_String env JNull = Inr ''null''"
| "js_String env (JBool b) = Inr (if b then ''true'' else ''false'')"
| "js_String env (JNum n) = Inr (number_toString env n)"
| "js_String env (JStr s) = Inr s"
| "js_String env (JArr xs) =
     (case collect (map (\<lambda>x. if x = JNull \<or> x = JUndefined then Inr []
                               else js_String env x) xs) of
        Inl e \<Rightarrow> Inl e
      | Inr parts \<Rightarrow> Inr (join_with '','' parts))"
| "js_String env (JObj kvs) =
     (if ''toString'' \<in> set (map fst kvs) then Inl cannot_convert
      else Inr ''[object Object]'')"

definition lower_char :: "char \<Rightarrow> char" where
  "lower_char c =
     (case map_of (zip ''ABCDEFGHIJKLMNOPQRSTUVWXYZ'' ''abcdefghijklmnopqrstuvwxyz'') c of
        Some l \<Rightarrow> l
      | None \<Rightarrow> c)"

text \<open>A text with its ASCII capital letters made small and nothing else changed.\<close>

definition ascii_lower :: "string \<Rightarrow> string" where
  "ascii_lower s = map lower_char s"

text \<open>\<^verbatim>\<open>s.split(c)\<close> for a one-character separator.\<close>

fun split_on :: "char \<Rightarrow> string \<Rightarrow> string list" where
  "split_on c [] = [[]]"
| "split_on c (x # xs) =
     (if x = c then [] # split_on c xs
      else (case split_on c xs of [] \<Rightarrow> [[x]] | y # ys \<Rightarrow> (x # y) # ys))"

text \<open>\<^verbatim>\<open>xs[i]\<close> on an array: undefined (here None) out of range.\<close>

fun at_index :: "'a list \<Rightarrow> nat \<Rightarrow> 'a option" where
  "at_index [] i = None"
| "at_index (x # xs) 0 = Some x"
| "at_index (x # xs) (Suc i) = at_index xs i"

fun starts_with :: "string \<Rightarrow> string \<Rightarrow> bool" where
  "starts_with [] s = True"
| "starts_with (p # ps) [] = False"
| "starts_with (p # ps) (c # cs) = (p = c \<and> starts_with ps cs)"

fun contains :: "string \<Rightarrow> string \<Rightarrow> bool" where
  "contains p [] = (p = [])"
| "contains p (c # cs) = (starts_with p (c # cs) \<or> contains p cs)"

text \<open>
  \<^verbatim>\<open>/duplicate key/i.test(s)\<close>: the pattern is ASCII and the regular expression has
  no \<^verbatim>\<open>u\<close> flag, so ignoring case only identifies the ASCII letters of the pattern
  with their capitals.
\<close>

definition matches_duplicate_key :: "string \<Rightarrow> bool" where
  "matches_duplicate_key s = contains ''duplicate key'' (ascii_lower s)"

section \<open>Responses, and handlers as programs over a store\<close>

text \<open>What \<^verbatim>\<open>res.status(n).json(b)\<close> sends; \<^verbatim>\<open>res.json(b)\<close> sends status 200.\<close>

record response =
  status :: nat
  body :: jsval

type_synonym row = "(string \<times> jsval) list"

definition cell :: "row \<Rightarrow> string \<Rightarrow> jsval" where
  "cell r c = (case map_of r c of Some v \<Rightarrow> v | None \<Rightarrow> JUndefined)"

text \<open>
  The statements the handlers send with \<^verbatim>\<open>client.query\<close>. The parts of the SQL text
  that the code computes are the constructor's arguments, the bound parameters last.
  \<^item> \<open>SelectExists\<close>: \<^verbatim>\<open>SELECT 1 FROM users WHERE email = $1\<close>
  \<^item> \<open>SelectColumns\<close>: \<^verbatim>\<open>SELECT column_name ... FROM information_schema.columns WHERE
    table_name = 'users'\<close>, with \<^verbatim>\<open>AND column_name IN (...)\<close> when a list is given
  \<^item> \<open>InsertUser\<close>: \<^verbatim>\<open>INSERT INTO users (cols) VALUES ($1, ..., $n)\<close>
  \<^item> \<open>SelectLogin\<close>: \<^verbatim>\<open>SELECT idCol AS uid, email, nameExpr AS name, password_hash
    FROM users WHERE email = $1\<close>
  \<^item> \<open>SelectMe\<close>: \<^verbatim>\<open>SELECT idCol AS uid, email, nameExpr AS name, createdExpr AS
    created_at FROM users WHERE idCol = $1\<close>
  \<^item> \<open>UpdateUsers\<close>: \<^verbatim>\<open>UPDATE users SET c1 = $i1, ... WHERE idCol = $n\<close>
  \<^item> \<open>SelectAccess\<close>: the join of bookings, rooms and booking_tokens of the
    verify-access route.
\<close>

datatype sql =
    SelectExists jsval
  | SelectColumns "string list option"
  | InsertUser "string list" "jsval list"
  | SelectLogin string string jsval
  | SelectMe string string string jsval
  | UpdateUsers "(string \<times> nat) list" string nat "jsval list"
  | SelectAccess jsval jsval

text \<open>
  An async handler is a program: it finishes with a value, or awaits
  \<^verbatim>\<open>pool.connect()\<close> or \<^verbatim>\<open>client.query(...)\<close> and continues with what the await
  gives (a thrown error or the rows), or reads or writes the module variable
  \<^verbatim>\<open>cachedUserIdColumn\<close>.
\<close>

datatype 'a prog =
    Done 'a
  | Connect "js_error option \<Rightarrow> 'a prog"
  | Query sql "js_error + row list \<Rightarrow> 'a prog"
  | ReadCache "jsval \<Rightarrow> 'a prog"
  | WriteCache jsval "'a prog"

primrec bind :: "'a prog \<Rightarrow> ('a \<Rightarrow> 'b prog) \<Rightarrow> 'b prog" where
  "bind (Done a) f = f a"
| "bind (Connect k) f = Connect (\<lambda>r. bind (k r) f)"
| "bind (Query q k) f = Query q (\<lambda>r. bind (k r) f)"
| "bind (ReadCache k) f = ReadCache (\<lambda>c. bind (k c) f)"
| "bind (WriteCache v p) f = WriteCache v (bind p f)"

text \<open>The store a program runs against: what connecting and each statement do to its
  state \<open>'s\<close>.\<close>

record 's store =
  connect :: "'s \<Rightarrow> js_error option"
  query :: "sql \<Rightarrow> 's \<Rightarrow> (js_error + row list) \<times> 's"

text \<open>Running a handler alone, from a value of the cache and a state of the store.\<close>

primrec run :: "'s store \<Rightarrow> 'a prog \<Rightarrow> jsval \<times> 's \<Rightarrow> 'a \<times> (jsval \<times> 's)" where
  "run st (Done a) = (\<lambda>cs. (a, cs))"
| "run st (Connect k) = (\<lambda>cs. run st (k (connect st (snd cs))) cs)"
| "run st (Query q k) =
     (\<lambda>cs. case query st q (snd cs) of (r, s') \<Rightarrow> run st (k r) (fst cs, s'))"
| "run st (ReadCache k) = (\<lambda>cs. run st (k (fst cs)) cs)"
| "run st (WriteCache v p) = (\<lambda>cs. run st p (v, snd cs))"



section \<open>Requests\<close>

record request =
  authorization :: "string option"
  req_body :: jsval
  req_user :: jsval

text \<open>The UTF-8 bytes of the cross mark (U+274C) that starts the middleware's messages.\<close>

definition cross_mark :: string where
  "cross_mark = [CHR 0xE2, CHR 0x9D, CHR 0x8C]"

definition failure :: "nat \<Rightarrow> string \<Rightarrow> response" where
  "failure n msg = \<lparr>status = n, body = JObj [(''success'', JBool False), (''message'', JStr msg)]\<rparr>"

section \<open>middleware/authMiddleware.js\<close>

text \<open>The middleware either sends a response or calls \<^verbatim>\<open>next()\<close> with the request it
  has annotated. The handlers behind it are async functions, so \<^verbatim>\<open>next()\<close> itself
  does not throw into the middleware's \<^verbatim>\<open>catch\<close>.\<close>

datatype outcome = Respond response | Next request

definition verifyToken :: "env \<Rightarrow> request \<Rightarrow> outcome" where
  "verifyToken env req =
     (case authorization req of
        None \<Rightarrow> Respond (failure 401 (cross_mark @ '' No token provided. Please login first.''))
      | Some authHeader \<Rightarrow>
          if authHeader = []
          then Respond (failure 401 (cross_mark @ '' No token provided. Please login first.''))
          else (case at_index (split_on CHR '' '' authHeader) 1 of
                  None \<Rightarrow> Respond (failure 401 (cross_mark @ '' Invalid token format''))
                | Some token \<Rightarrow>
                    if token = []
                    then Respond (failure 401 (cross_mark @ '' Invalid token format''))
                    else (case jwt_verify env token of
                            Inl error \<Rightarrow>
                              if ename error = ''TokenExpiredError''
                              then Respond (failure 401
                                     (cross_mark @ '' Token expired. Please login again.''))
                              else Respond (failure 401
                                     (cross_mark @ '' Invalid token: '' @ message error))
                          | Inr decoded \<Rightarrow> Next (req\<lparr>req_user := decoded\<rparr>))))"

section \<open>The helpers shared by the handlers\<close>

text \<open>
  Inside a \<^verbatim>\<open>try\<close> block a program yields \<open>Inl e\<close> when \<open>e\<close> was thrown and
  \<open>Inr x\<close> when \<open>x\<close> was returned; an awaited call that rejects throws.
  The \<^verbatim>\<open>finally\<close> blocks only release the client and are left out.
\<close>

definition await_connect :: "(js_error + 'a) prog \<Rightarrow> (js_error + 'a) prog" where
  "await_connect p = Connect (\<lambda>r. case r of Some e \<Rightarrow> Done (Inl e) | None \<Rightarrow> p)"

definition await_query :: "sql \<Rightarrow> (row list \<Rightarrow> (js_error + 'a) prog) \<Rightarrow> (js_error + 'a) prog" where
  "await_query q k = Query q (\<lambda>r. case r of Inl e \<Rightarrow> Done (Inl e) | Inr rows \<Rightarrow> k rows)"

definition and_then :: "(js_error + 'a) prog \<Rightarrow> ('a \<Rightarrow> (js_error + 'b) prog) \<Rightarrow> (js_error + 'b) prog" where
  "and_then p f = bind p (\<lambda>r. case r of Inl e \<Rightarrow> Done (Inl e) | Inr a \<Rightarrow> f a)"

definition try_catch :: "(js_error + 'a) prog \<Rightarrow> (js_error \<Rightarrow> 'a) \<Rightarrow> 'a prog" where
  "try_catch p handler = bind p (\<lambda>r. case r of Inl e \<Rightarrow> Done (handler e) | Inr a \<Rightarrow> Done a)"

text \<open>
  An async handler as a whole yields \<open>Inr r\<close> when it has sent the response \<open>r\<close>
  and \<open>Inl e\<close> when it threw \<open>e\<close> outside every \<^verbatim>\<open>try\<close>: its promise rejects
  and it sends nothing. A \<^verbatim>\<open>try\<close> statement whose \<^verbatim>\<open>catch\<close> sends a response
  always sends one.
\<close>

definition responds :: "response prog \<Rightarrow> (js_error + response) prog" where
  "responds p = bind p (\<lambda>r. Done (Inr r))"

text \<open>\<^verbatim>\<open>req.body || {}\<close>\<close>

definition body_or_empty :: "request \<Rightarrow> jsval" where
  "body_or_empty req = (if truthy (req_body req) then req_body req else JObj [])"

text \<open>The values of \<^verbatim>\<open>column_name\<close> in the rows of a catalog query.\<close>

definition column_names :: "row list \<Rightarrow> jsval list" where
  "column_names rows = map (\<lambda>r. cell r ''column_name'') rows"

section \<open>The auth controller (src/unnamed/part_002)\<close>

definition getUserIdColumn :: "(js_error + jsval) prog" where
  "getUserIdColumn =
     ReadCache (\<lambda>cachedUserIdColumn.
       if truthy cachedUserIdColumn then Done (Inr cachedUserIdColumn)
       else await_query (SelectColumns (Some [''id'', ''user_id'']))
              (\<lambda>rows.
                 let col = (case rows of
                              [] \<Rightarrow> JStr ''user_id''
                            | r # _ \<Rightarrow> if truthy (cell r ''column_name'')
                                       then cell r ''column_name'' else JStr ''user_id'')
                 in WriteCache col (Done (Inr col))))"

definition getCreatedAtExpr :: "(js_error + string) prog" where
  "getCreatedAtExpr =
     await_query (SelectColumns (Some [''created_at'']))
       (\<lambda>rows. Done (Inr (if length rows \<noteq> 0 then ''created_at'' else ''NOW()'')))"

definition getNameExpr :: "(js_error + string) prog" where
  "getNameExpr =
     await_query (SelectColumns (Some [''full_name'', ''name'']))
       (\<lambda>rows.
          let cols = column_names rows in
          Done (Inr (if JStr ''full_name'' \<in> set cols \<and> JStr ''name'' \<in> set cols
                     then ''COALESCE(full_name, name)''
                     else if JStr ''full_name'' \<in> set cols then ''full_name''
                     else if JStr ''name'' \<in> set cols then ''name''
                     else ''NULL'')))"

text \<open>Lines 65 to 87 of register: the columns of the INSERT and their values.\<close>

definition insert_columns :: "jsval list \<Rightarrow> string \<Rightarrow> jsval \<Rightarrow> string \<Rightarrow> string
    \<Rightarrow> string list \<times> jsval list" where
  "insert_columns available normalizedEmail name passwordHash aadhaarKey =
     (let has = (\<lambda>c. JStr c \<in> set available);
          c1 = (if has ''email'' then [(''email'', JStr normalizedEmail)] else []);
          nameValue = (if truthy name then name
                       else (case at_index (split_on CHR ''@'' normalizedEmail) 0 of
                               Some local_part \<Rightarrow> JStr local_part
                             | None \<Rightarrow> JUndefined));
          c2 = (if has ''full_name'' \<and> has ''name''
                then [(''full_name'', nameValue), (''name'', nameValue)]
                else if has ''full_name'' then [(''full_name'', nameValue)]
                else if has ''name'' then [(''name'', nameValue)]
                else []);
          c3 = (if has ''password_hash'' then [(''password_hash'', JStr passwordHash)] else []);
          c4 = (if has ''aadhaar_key'' then [(''aadhaar_key'', JStr aadhaarKey)] else []);
          all = c1 @ c2 @ c3 @ c4
      in (map fst all, map snd all))"

text \<open>The \<^verbatim>\<open>catch\<close> block of register.\<close>

definition register_catch :: "env \<Rightarrow> js_error \<Rightarrow> response" where
  "register_catch env error =
     (if code error = Some ''23505'' \<or> matches_duplicate_key (message error)
      then failure 409 ''Email already registered''
      else \<lparr>status = 500,
            body = JObj ([(''success'', JBool False),
                          (''message'', JStr (if message error \<noteq> [] then message error
                                              else ''Internal server error''))]
                         @ (if node_env env \<noteq> Some ''production''
                            then [(''code'', case code error of Some c \<Rightarrow> JStr c | None \<Rightarrow> JUndefined),
                                  (''detail'', case detail error of Some c \<Rightarrow> JStr c | None \<Rightarrow> JUndefined)]
                            else []))\<rparr>)"

definition register :: "env \<Rightarrow> request \<Rightarrow> (js_error + response) prog" where
  "register env req =
     (let email = field (body_or_empty req) ''email'';
          password = field (body_or_empty req) ''password'';
          name = field (body_or_empty req) ''name''
      in
      if \<not> truthy email \<or> \<not> truthy password
      then Done (Inr (failure 400 ''Email and password required''))
      else if (case password of JStr s \<Rightarrow> js_length s < 6 | _ \<Rightarrow> True)
      then Done (Inr (failure 400 ''Password must be at least 6 characters''))
      else
        (case js_String env email of
           Inl thrown \<Rightarrow> Done (Inl thrown)
         | Inr text \<Rightarrow>
             let normalizedEmail = toLowerCase env text in
             responds
               (try_catch
                 (await_connect
                   (await_query (SelectExists (JStr normalizedEmail)) (\<lambda>existing.
                      if length existing > 0
                      then Done (Inr (failure 409 ''Email already registered''))
                      else
                        let passwordHash = bcrypt_hash env (the_string password) 10;
                            aadhaarKey = random_hex env
                        in
                        await_query (SelectColumns None) (\<lambda>colsRes.
                          case insert_columns (column_names colsRes) normalizedEmail name
                                 passwordHash aadhaarKey of
                            (insertCols, vals) \<Rightarrow>
                              if length insertCols = 0
                              then Done (Inl \<lparr>ename = ''Error'', code = None,
                                              message = ''No compatible columns found for users insert'',
                                              detail = None\<rparr>)
                              else
                                await_query (InsertUser insertCols vals) (\<lambda>_.
                                  Done (Inr \<lparr>status = 201,
                                             body = JObj [(''success'', JBool True),
                                                          (''message'', JStr ''Account created'')]\<rparr>))))))
                 (register_catch env))))"

definition login :: "env \<Rightarrow> request \<Rightarrow> (js_error + response) prog" where
  "login env req =
     (let email = field (body_or_empty req) ''email'';
          password = field (body_or_empty req) ''password''
      in
      if \<not> truthy email \<or> \<not> truthy password
      then Done (Inr (failure 400 ''Email and password required''))
      else
        (case js_String env email of
           Inl thrown \<Rightarrow> Done (Inl thrown)
         | Inr text \<Rightarrow>
             let normalizedEmail = toLowerCase env text in
             responds
               (try_catch
                 (await_connect
                   (and_then getUserIdColumn (\<lambda>idCol.
                    and_then getNameExpr (\<lambda>nameExpr.
                      case js_String env idCol of
                        Inl thrown \<Rightarrow> Done (Inl thrown)
                      | Inr idColText \<Rightarrow>
                      await_query (SelectLogin idColText nameExpr (JStr normalizedEmail))
                        (\<lambda>rows.
                           case rows of
                             [] \<Rightarrow> Done (Inr (failure 401 ''Invalid credentials''))
                           | user # _ \<Rightarrow>
                               (case (if truthy (cell user ''password_hash'')
                                      then bcrypt_compare env password (cell user ''password_hash'')
                                      else Inr False) of
                                  Inl e \<Rightarrow> Done (Inl e)
                                | Inr ok \<Rightarrow>
                                    if \<not> ok then Done (Inr (failure 401 ''Invalid credentials''))
                                    else (case jwt_sign env (JObj [(''userId'', cell user ''uid'')]) ''1h'' of
                                            Inl e \<Rightarrow> Done (Inl e)
                                          | Inr token \<Rightarrow>
                                              Done (Inr \<lparr>status = 200,
                                                         body = JObj [(''success'', JBool True),
                                                                      (''token'', JStr token)]\<rparr>))))))))
                 (\<lambda>error. failure 500 ''Internal server error''))))"



section \<open>The verify-access route (src/server.js)\<close>

text \<open>
  The route destructures \<^verbatim>\<open>req.body\<close> outside its \<^verbatim>\<open>try\<close> block: on a body that
  is undefined or null this throws a TypeError that the handler does not catch
  (\<open>Inl\<close>), otherwise the handler sends a response (\<open>Inr\<close>).
\<close>

definition verify_access :: "request \<Rightarrow> (js_error + response) prog" where
  "verify_access req =
     (if req_body req = JUndefined \<or> req_body req = JNull
      then Done (Inl \<lparr>ename = ''TypeError'', code = None,
                      message = ''Cannot destructure property user_id of req.body'',
                      detail = None\<rparr>)
      else
        let user_id = field (req_body req) ''user_id'';
            qr_code_id = field (req_body req) ''qr_code_id''
        in
        if \<not> truthy user_id \<or> \<not> truthy qr_code_id
        then Done (Inr (failure 400 ''User ID and QR Code ID required''))
        else
          responds
            (try_catch
              (await_connect
                (await_query (SelectAccess user_id qr_code_id) (\<lambda>rows.
                   case rows of
                     [] \<Rightarrow> Done (Inr (failure 403 ''Verification failed. Invalid or expired booking.''))
                   | booking # _ \<Rightarrow>
                       Done (Inr \<lparr>status = 200,
                                  body = JObj [(''success'', JBool True),
                                               (''message'', JStr ''Access granted!''),
                                               (''booking_token'', cell booking ''token_id''),
                                               (''digital_signature'',
                                                cell booking ''digital_signature'')]\<rparr>))))
              (\<lambda>error. failure 500 (message error))))"

section \<open>The database behind the pool\<close>

text \<open>
  The PostgreSQL database the pool connects to, as far as the statements above read and
  write it. The users table is the one \<^verbatim>\<open>ensureSchema\<close> (src/server.js) sets up, with
  whatever columns it has (\<open>user_cols\<close>): \<^verbatim>\<open>email\<close> is NOT NULL and carries the unique
  index \<^verbatim>\<open>users_email_key\<close>, the identifier column is a serial, \<^verbatim>\<open>created_at\<close>
  defaults to \<^verbatim>\<open>NOW()\<close>, every other column defaults to NULL. A row maps each column
  to the JavaScript value the driver returns for it (NULL is null). Text is compared
  exactly, and \<open>clock\<close> is what \<^verbatim>\<open>NOW()\<close> returns. In the statements on users
  the email parameter is a string compared with a text column, and the identifier
  parameter is the \<^verbatim>\<open>userId\<close> of a token, which login signs from that column.
  The texts bound to these statements are texts PostgreSQL takes: it raises an error on
  a text with a NUL character, which this database does not do.
  Connections always succeed here and the sequence has no gaps; stores that fail are
  covered by the theorems over any store.

  The verify-access route binds whatever its unauthenticated caller sent. The driver
  sends a parameter as text and PostgreSQL reads the text as a value of the type of the
  column it is compared with, or raises an error when it binds the parameter, whatever
  the tables hold. The declarations of bookings, rooms and booking_tokens are not in
  the repository, so this reading is a parameter of the database, one for each of the
  two columns: \<open>read_user_id\<close> for \<^verbatim>\<open>bookings.user_id\<close> and \<open>read_qr_code\<close> for
  \<^verbatim>\<open>rooms.qr_code_id\<close>. Each gives the error raised, or the value read, as the driver
  returns it from a cell.
\<close>

record db =
  user_cols :: "string list"
  users :: "row list"
  user_seq :: int
  bookings :: "row list"
  rooms :: "row list"
  booking_tokens :: "row list"
  clock :: int
  read_user_id :: "jsval \<Rightarrow> js_error + jsval"
  read_qr_code :: "jsval \<Rightarrow> js_error + jsval"

definition sql_null :: "jsval \<Rightarrow> bool" where
  "sql_null v = (v = JNull \<or> v = JUndefined)"

text \<open>SQL's \<^verbatim>\<open>a = b\<close> as a WHERE condition: never true on NULL.\<close>

definition sql_eq :: "jsval \<Rightarrow> jsval \<Rightarrow> bool" where
  "sql_eq a b = (\<not> sql_null a \<and> \<not> sql_null b \<and> a = b)"

text \<open>SQL's \<^verbatim>\<open>a <= b\<close> on timestamps.\<close>

fun sql_le :: "jsval \<Rightarrow> jsval \<Rightarrow> bool" where
  "sql_le (JNum a) (JNum b) = (a \<le> b)"
| "sql_le _ _ = False"

definition undefined_column :: "string \<Rightarrow> js_error" where
  "undefined_column c =
     \<lparr>ename = ''error'', code = Some ''42703'',
      message = ''column '' @ c @ '' does not exist'', detail = None\<rparr>"

definition not_null_violation :: "string \<Rightarrow> js_error" where
  "not_null_violation c =
     \<lparr>ename = ''error'', code = Some ''23502'',
      message = ''null value in column '' @ c @ '' violates not-null constraint'',
      detail = None\<rparr>"

definition unique_violation :: js_error where
  "unique_violation =
     \<lparr>ename = ''error'', code = Some ''23505'',
      message = ''duplicate key value violates unique constraint users_email_key'',
      detail = None\<rparr>"

definition syntax_error :: js_error where
  "syntax_error =
     \<lparr>ename = ''error'', code = Some ''42601'', message = ''syntax error'', detail = None\<rparr>"

text \<open>The SQL expressions the controller puts into its statements: the columns an
  expression names and its value on a row.\<close>

definition expr_cols :: "string \<Rightarrow> string list" where
  "expr_cols e =
     (if e = ''NULL'' \<or> e = ''NOW()'' then []
      else if e = ''COALESCE(full_name, name)'' then [''full_name'', ''name'']
      else [e])"

definition eval_expr :: "db \<Rightarrow> string \<Rightarrow> row \<Rightarrow> jsval" where
  "eval_expr d e r =
     (if e = ''NULL'' then JNull
      else if e = ''NOW()'' then JNum (clock d)
      else if e = ''COALESCE(full_name, name)''
      then (if sql_null (cell r ''full_name'') then cell r ''name'' else cell r ''full_name'')
      else cell r e)"

definition missing_col :: "db \<Rightarrow> string list \<Rightarrow> string option" where
  "missing_col d cs = List.find (\<lambda>c. c \<notin> set (user_cols d)) cs"

text \<open>The i-th bound parameter; the driver sends undefined as NULL.\<close>

definition param :: "jsval list \<Rightarrow> nat \<Rightarrow> jsval" where
  "param vals i =
     (case at_index vals (i - 1) of
        Some v \<Rightarrow> if v = JUndefined \<or> i = 0 then JNull else v
      | None \<Rightarrow> JNull)"

definition column_default :: "db \<Rightarrow> string \<Rightarrow> jsval" where
  "column_default d c =
     (if c = ''user_id'' \<or> c = ''id'' then JNum (user_seq d)
      else if c = ''created_at'' then JNum (clock d)
      else JNull)"

definition new_row :: "db \<Rightarrow> (string \<times> jsval) list \<Rightarrow> row" where
  "new_row d given =
     map (\<lambda>c. (c, case map_of given c of
                     Some v \<Rightarrow> if v = JUndefined then JNull else v
                   | None \<Rightarrow> column_default d c))
         (user_cols d)"

definition update_row :: "(string \<times> nat) list \<Rightarrow> jsval list \<Rightarrow> row \<Rightarrow> row" where
  "update_row sets vals r =
     map (\<lambda>(c, v). (c, case map_of sets c of Some i \<Rightarrow> param vals i | None \<Rightarrow> v)) r"

text \<open>The WHERE and JOIN conditions of the verify-access statement on a booking \<open>b\<close>,
  a room \<open>r\<close> and a booking token \<open>bt\<close>, for the values \<open>uid\<close> and \<open>qr\<close> read
  from the two parameters.\<close>

definition access_row_ok :: "db \<Rightarrow> jsval \<Rightarrow> jsval \<Rightarrow> row \<Rightarrow> row \<Rightarrow> row \<Rightarrow> bool" where
  "access_row_ok d uid qr b r bt =
     (sql_eq (cell b ''room_id'') (cell r ''room_id'') \<and>
      sql_eq (cell b ''booking_id'') (cell bt ''booking_id'') \<and>
      sql_eq (cell b ''user_id'') uid \<and>
      sql_eq (cell r ''qr_code_id'') qr \<and>
      cell bt ''is_valid'' = JBool True \<and>
      sql_le (cell b ''check_in_time'') (JNum (clock d)) \<and>
      sql_le (JNum (clock d)) (cell b ''check_out_time''))"

definition access_row :: "row \<Rightarrow> row \<Rightarrow> row \<Rightarrow> row" where
  "access_row b r bt =
     [(''booking_id'', cell b ''booking_id''), (''status'', cell b ''status''),
      (''qr_code_id'', cell r ''qr_code_id''), (''token_id'', cell bt ''token_id''),
      (''digital_signature'', cell bt ''digital_signature'')]"

fun pg_query :: "sql \<Rightarrow> db \<Rightarrow> (js_error + row list) \<times> db" where
  "pg_query (SelectExists em) d =
     (case missing_col d [''email''] of
        Some c \<Rightarrow> (Inl (undefined_column c), d)
      | None \<Rightarrow>
          (Inr (map (\<lambda>r. [(''?column?'', JNum 1)])
                  (filter (\<lambda>r. sql_eq (cell r ''email'') em) (users d))), d))"
| "pg_query (SelectColumns names) d =
     (Inr (map (\<lambda>c. [(''column_name'', JStr c)])
             (filter (\<lambda>c. case names of None \<Rightarrow> True | Some ns \<Rightarrow> c \<in> set ns) (user_cols d))), d)"
| "pg_query (InsertUser cols vals) d =
     (case missing_col d cols of
        Some c \<Rightarrow> (Inl (undefined_column c), d)
      | None \<Rightarrow>
          let r = new_row d (zip cols vals) in
          if cols = [] \<or> length cols \<noteq> length vals then (Inl syntax_error, d)
          else if ''email'' \<in> set (user_cols d) \<and> sql_null (cell r ''email'')
          then (Inl (not_null_violation ''email''), d)
          else if ''email'' \<in> set (user_cols d)
                  \<and> (\<exists>r' \<in> set (users d). sql_eq (cell r' ''email'') (cell r ''email''))
          then (Inl unique_violation, d)
          else (Inr [], d\<lparr>users := users d @ [r], user_seq := user_seq d + 1\<rparr>))"
| "pg_query (SelectLogin idCol nameExpr em) d =
     (case missing_col d (expr_cols idCol @ [''email''] @ expr_cols nameExpr @ [''password_hash'']) of
        Some c \<Rightarrow> (Inl (undefined_column c), d)
      | None \<Rightarrow>
          (Inr (map (\<lambda>r. [(''uid'', eval_expr d idCol r), (''email'', cell r ''email''),
                          (''name'', eval_expr d nameExpr r),
                          (''password_hash'', cell r ''password_hash'')])
                  (filter (\<lambda>r. sql_eq (cell r ''email'') em) (users d))), d))"
| "pg_query (SelectMe idCol nameExpr createdExpr uid) d =
     (case missing_col d (expr_cols idCol @ [''email''] @ expr_cols nameExpr
                          @ expr_cols createdExpr) of
        Some c \<Rightarrow> (Inl (undefined_column c), d)
      | None \<Rightarrow>
          (Inr (map (\<lambda>r. [(''uid'', eval_expr d idCol r), (''email'', cell r ''email''),
                          (''name'', eval_expr d nameExpr r),
                          (''created_at'', eval_expr d createdExpr r)])
                  (filter (\<lambda>r. sql_eq (eval_expr d idCol r) (if uid = JUndefined then JNull else uid))
                     (users d))), d))"
| "pg_query (UpdateUsers sets idCol n vals) d =
     (if sets = [] then (Inl syntax_error, d)
      else
        (case missing_col d (map fst sets @ expr_cols idCol) of
           Some c \<Rightarrow> (Inl (undefined_column c), d)
         | None \<Rightarrow>
             (Inr [], d\<lparr>users := map (\<lambda>r. if sql_eq (eval_expr d idCol r) (param vals n)
                                           then update_row sets vals r else r) (users d)\<rparr>)))"
| "pg_query (SelectAccess user_id qr_code_id) d =
     (case read_user_id d user_id of
        Inl e \<Rightarrow> (Inl e, d)
      | Inr uid \<Rightarrow>
          (case read_qr_code d qr_code_id of
             Inl e \<Rightarrow> (Inl e, d)
           | Inr qr \<Rightarrow>
               (Inr (concat (map (\<lambda>b. concat (map (\<lambda>r. concat (map (\<lambda>bt.
                       if access_row_ok d uid qr b r bt then [access_row b r bt] else [])
                       (booking_tokens d))) (rooms d))) (bookings d))), d)))"

definition pg :: "db store" where
  "pg = \<lparr>connect = (\<lambda>d. None), query = pg_query\<rparr>"

section \<open>Notions used to state the properties\<close>

text \<open>The identifier column \<^verbatim>\<open>getUserIdColumn\<close> arrives at from a value of the cache
  and a database, and when it is one of the two the code looks for and exists.\<close>

definition id_column :: "jsval \<Rightarrow> db \<Rightarrow> jsval" where
  "id_column c d =
     (if truthy c then c
      else (case filter (\<lambda>x. x \<in> set [''id'', ''user_id'']) (user_cols d) of
              [] \<Rightarrow> JStr ''user_id''
            | x # _ \<Rightarrow> JStr x))"

definition id_column_known :: "jsval \<Rightarrow> db \<Rightarrow> bool" where
  "id_column_known c d =
     ((id_column c d = JStr ''id'' \<or> id_column c d = JStr ''user_id'')
      \<and> the_string (id_column c d) \<in> set (user_cols d))"

text \<open>The display-name expression for the columns of a database.\<close>

definition name_expr :: "db \<Rightarrow> string" where
  "name_expr d =
     (if ''full_name'' \<in> set (user_cols d) \<and> ''name'' \<in> set (user_cols d)
      then ''COALESCE(full_name, name)''
      else if ''full_name'' \<in> set (user_cols d) then ''full_name''
      else if ''name'' \<in> set (user_cols d) then ''name''
      else ''NULL'')"

text \<open>The rows the login statement selects for an email.\<close>

definition login_rows :: "jsval \<Rightarrow> db \<Rightarrow> string \<Rightarrow> row list" where
  "login_rows c d em =
     map (\<lambda>r. [(''uid'', eval_expr d (the_string (id_column c d)) r), (''email'', cell r ''email''),
               (''name'', eval_expr d (name_expr d) r),
               (''password_hash'', cell r ''password_hash'')])
       (filter (\<lambda>r. sql_eq (cell r ''email'') (JStr em)) (users d))"

text \<open>The rows the verify-access statement selects for the values read from its
  parameters.\<close>

definition access_rows :: "db \<Rightarrow> jsval \<Rightarrow> jsval \<Rightarrow> row list" where
  "access_rows d uid qr = concat (map (\<lambda>b. concat (map (\<lambda>r. concat (map (\<lambda>bt.
             if access_row_ok d uid qr b r bt then [access_row b r bt] else [])
             (booking_tokens d))) (rooms d))) (bookings d))"



text \<open>
  For register: a request that passes validation, the normalized email of a request
  (or what \<^verbatim>\<open>String(email)\<close> throws), whether an email has a row, the two responses,
  the row a registration of the email \<open>em\<close> inserts into a database and the database
  with that row.
\<close>

definition valid_registration :: "request \<Rightarrow> bool" where
  "valid_registration req =
     (truthy (field (body_or_empty req) ''email'') \<and> truthy (field (body_or_empty req) ''password'')
      \<and> (case field (body_or_empty req) ''password'' of JStr s \<Rightarrow> 6 \<le> js_length s | _ \<Rightarrow> False))"

definition normalized_email :: "env \<Rightarrow> request \<Rightarrow> js_error + string" where
  "normalized_email env req =
     (case js_String env (field (body_or_empty req) ''email'') of
        Inl thrown \<Rightarrow> Inl thrown
      | Inr text \<Rightarrow> Inr (toLowerCase env text))"

definition registered :: "db \<Rightarrow> string \<Rightarrow> bool" where
  "registered d em = (\<exists>r \<in> set (users d). sql_eq (cell r ''email'') (JStr em))"

definition conflict :: response where
  "conflict = failure 409 ''Email already registered''"

definition created :: response where
  "created = \<lparr>status = 201,
              body = JObj [(''success'', JBool True), (''message'', JStr ''Account created'')]\<rparr>"

definition register_row :: "env \<Rightarrow> request \<Rightarrow> string \<Rightarrow> db \<Rightarrow> row" where
  "register_row env req em d =
     (case insert_columns (map JStr (user_cols d)) em
             (field (body_or_empty req) ''name'')
             (bcrypt_hash env (the_string (field (body_or_empty req) ''password'')) 10)
             (random_hex env) of
        (insertCols, vals) \<Rightarrow> new_row d (zip insertCols vals))"

definition with_user :: "db \<Rightarrow> row \<Rightarrow> db" where
  "with_user d r = d\<lparr>users := users d @ [r], user_seq := user_seq d + 1\<rparr>"

text \<open>
  The part of register's \<^verbatim>\<open>try\<close> block that remains after each of its awaits, for
  the normalized email \<open>em\<close>: before the existence check, before the catalog query, and
  before the insert, given the catalog rows. A handler in flight is pending when it has
  not yet sent its insert.
\<close>

definition reg_insert :: "env \<Rightarrow> request \<Rightarrow> string \<Rightarrow> row list \<Rightarrow> (js_error + response) prog" where
  "reg_insert env req em colsRes =
     (case insert_columns (column_names colsRes) em
             (field (body_or_empty req) ''name'')
             (bcrypt_hash env (the_string (field (body_or_empty req) ''password'')) 10)
             (random_hex env) of
        (insertCols, vals) \<Rightarrow>
          if length insertCols = 0
          then Done (Inl \<lparr>ename = ''Error'', code = None,
                          message = ''No compatible columns found for users insert'',
                          detail = None\<rparr>)
          else await_query (InsertUser insertCols vals) (\<lambda>_. Done (Inr created)))"

definition reg_columns :: "env \<Rightarrow> request \<Rightarrow> string \<Rightarrow> (js_error + response) prog" where
  "reg_columns env req em = await_query (SelectColumns None) (reg_insert env req em)"

definition reg_exists :: "env \<Rightarrow> request \<Rightarrow> string \<Rightarrow> (js_error + response) prog" where
  "reg_exists env req em =
     await_query (SelectExists (JStr em)) (\<lambda>existing.
       if length existing > 0 then Done (Inr conflict) else reg_columns env req em)"

definition catalog :: "db \<Rightarrow> row list" where
  "catalog d = map (\<lambda>c. [(''column_name'', JStr c)]) (user_cols d)"


section \<open>A concrete environment, request and database\<close>

text \<open>
  Concrete inputs on which the theorems below are exercised. The texts of the examples
  are ASCII and their numbers are small: there JavaScript's \<^verbatim>\<open>toLowerCase\<close> only makes
  the capital letters small and \<^verbatim>\<open>String(n)\<close> is the decimal numeral of \<open>n\<close>. As
  bcryptjs does, \<^verbatim>\<open>bcrypt.compare\<close> rejects unless both its arguments are strings.
\<close>

fun digits :: "nat \<Rightarrow> string" where
  "digits n = (if n < 10 then [''0123456789'' ! n]
               else digits (n div 10) @ [''0123456789'' ! (n mod 10)])"

declare digits.simps [simp del]

definition decimal :: "int \<Rightarrow> string" where
  "decimal n = (if n < 0 then ''-'' @ digits (nat (- n)) else digits (nat n))"

definition example_env :: env where
  "example_env =
     \<lparr>bcrypt_hash = (\<lambda>p n. ''h:'' @ p),
      bcrypt_compare = (\<lambda>p h.
        case (p, h) of
          (JStr password, JStr hash) \<Rightarrow> Inr (hash = ''h:'' @ password)
        | _ \<Rightarrow> Inl \<lparr>ename = ''Error'', code = None, message = ''Illegal arguments'',
                     detail = None\<rparr>),
      random_hex = ''00ff'',
      jwt_sign = (\<lambda>p e. Inr (''tok:'' @ (case field p ''userId'' of JNum n \<Rightarrow> decimal n | _ \<Rightarrow> []))),
      jwt_verify = (\<lambda>t.
        if t = ''tok:1'' then Inr (JObj [(''userId'', JNum 1)])
        else if t = ''old''
        then Inl \<lparr>ename = ''TokenExpiredError'', code = None, message = ''jwt expired'',
                  detail = None\<rparr>
        else Inl \<lparr>ename = ''JsonWebTokenError'', code = None, message = ''jwt malformed'',
                  detail = None\<rparr>),
      node_env = None,
      toLowerCase = ascii_lower,
      number_toString = decimal\<rparr>"

text \<open>
  An integer column for the parameters of the verify-access statement, as
  \<^verbatim>\<open>users.user_id\<close> is one, as far as the examples need it: an integer in the range
  of \<^verbatim>\<open>integer\<close> and a string of decimal digits that spells one are read as that
  integer; a larger integer is out of range; a string with another character and a
  boolean are no integer, and the error quotes the text sent. PostgreSQL also reads a
  sign and blanks around the digits, and of an array or an object the driver sends a
  text of its own that is no integer either: the examples use neither, and such a
  parameter is rejected here with no text quoted.
\<close>

definition out_of_range :: "string \<Rightarrow> js_error" where
  "out_of_range text =
     \<lparr>ename = ''error'', code = Some ''22003'',
      message = ''value '' @ [CHR 0x22] @ text @ [CHR 0x22] @ '' is out of range for type integer'',
      detail = None\<rparr>"

definition invalid_integer :: "string \<Rightarrow> js_error" where
  "invalid_integer text =
     \<lparr>ename = ''error'', code = Some ''22P02'',
      message = ''invalid input syntax for type integer: '' @ [CHR 0x22] @ text @ [CHR 0x22],
      detail = None\<rparr>"

fun digits_value :: "nat \<Rightarrow> string \<Rightarrow> nat option" where
  "digits_value acc [] = Some acc"
| "digits_value acc (c # cs) =
     (case map_of (zip ''0123456789'' [0 ..< 10]) c of
        None \<Rightarrow> None
      | Some v \<Rightarrow> digits_value (10 * acc + v) cs)"

fun example_read_integer :: "jsval \<Rightarrow> js_error + jsval" where
  "example_read_integer (JNum n) =
     (if - 2147483648 \<le> n \<and> n \<le> 2147483647 then Inr (JNum n) else Inl (out_of_range (decimal n)))"
| "example_read_integer (JStr s) =
     (case (if s = [] then None else digits_value 0 s) of
        None \<Rightarrow> Inl (invalid_integer s)
      | Some v \<Rightarrow> if v \<le> 2147483647 then Inr (JNum (int v)) else Inl (out_of_range s))"
| "example_read_integer (JBool b) = Inl (invalid_integer (if b then ''true'' else ''false''))"
| "example_read_integer _ = Inl (invalid_integer [])"

definition example_db :: db where
  "example_db =
     \<lparr>user_cols = [''user_id'', ''email'', ''name'', ''password_hash'', ''created_at''],
      users = [], user_seq = 1, bookings = [], rooms = [], booking_tokens = [],
      clock = 100, read_user_id = example_read_integer, read_qr_code = example_read_integer\<rparr>"

definition example_users_db :: db where
  "example_users_db =
     example_db\<lparr>users := [[(''user_id'', JNum 1), (''email'', JStr ''a@x.com''),
                           (''name'', JStr ''a''), (''password_hash'', JStr ''h:secret1''),
                           (''created_at'', JNum 100)]],
                user_seq := 2\<rparr>"

definition example_booking_db :: db where
  "example_booking_db =
     example_db\<lparr>bookings := [[(''booking_id'', JNum 5), (''user_id'', JNum 1), (''room_id'', JNum 2),
                              (''status'', JStr ''confirmed''),
                              (''check_in_time'', JNum 50), (''check_out_time'', JNum 150)]],
                rooms := [[(''room_id'', JNum 2), (''qr_code_id'', JNum 77)]],
                booking_tokens := [[(''token_id'', JNum 9), (''booking_id'', JNum 5),
                                    (''is_valid'', JBool True),
                                    (''digital_signature'', JStr ''sig'')]]\<rparr>"

definition example_request :: "string option \<Rightarrow> (string \<times> jsval) list \<Rightarrow> request" where
  "example_request h b = \<lparr>authorization = h, req_body = JObj b, req_user = JUndefined\<rparr>"



section \<open>Running programs\<close>

lemma pg_simps: "connect pg d = None" "query pg q d = pg_query q d"
  by (simp_all add: pg_def)

lemma run_bind:
  "run st (bind p f) cs = (case run st p cs of (a, cs') \<Rightarrow> run st (f a) cs')"
  by (induction p arbitrary: cs) (auto split: prod.splits)

lemma run_await_connect:
  "run st (await_connect p) cs =
     (case connect st (snd cs) of Some e \<Rightarrow> (Inl e, cs) | None \<Rightarrow> run st p cs)"
  by (simp add: await_connect_def split: option.splits)

lemma run_await_query:
  "run st (await_query q k) cs =
     (case query st q (snd cs) of
        (Inl e, s') \<Rightarrow> (Inl e, (fst cs, s'))
      | (Inr rows, s') \<Rightarrow> run st (k rows) (fst cs, s'))"
  by (simp add: await_query_def split: prod.splits sum.splits)

lemma run_and_then:
  "run st (and_then p f) cs =
     (case run st p cs of (Inl e, cs') \<Rightarrow> (Inl e, cs') | (Inr a, cs') \<Rightarrow> run st (f a) cs')"
  by (simp add: and_then_def run_bind split: prod.splits sum.splits)

lemma run_try_catch:
  "run st (try_catch p handler) cs =
     (case run st p cs of (Inl e, cs') \<Rightarrow> (handler e, cs') | (Inr a, cs') \<Rightarrow> (a, cs'))"
  by (simp add: try_catch_def run_bind split: prod.splits sum.splits)

lemma run_responds:
  "run st (responds p) cs = (case run st p cs of (a, cs') \<Rightarrow> (Inr a, cs'))"
  by (simp add: responds_def run_bind split: prod.splits)

lemma column_names_catalog:
  "column_names (map (\<lambda>c. [(''column_name'', JStr c)]) xs) = map JStr xs"
  by (simp add: column_names_def cell_def)

lemma JStr_in_set: "JStr c \<in> set (map JStr xs) \<longleftrightarrow> c \<in> set xs"
  by auto

section \<open>The access middleware\<close>

lemma split_on_no_sep: "c \<notin> set s \<Longrightarrow> split_on c s = [s]"
  by (induction s) auto

lemma split_on_first: "c \<notin> set a \<Longrightarrow> split_on c (a @ c # b) = a # split_on c b"
  by (induction a) auto

lemma second_segment: "CHR '' '' \<notin> set scheme \<Longrightarrow> CHR '' '' \<notin> set token \<Longrightarrow>
   at_index (split_on CHR '' '' (scheme @ CHR '' '' # token)) 1 = Some token"
  by (simp add: split_on_first split_on_no_sep)

text \<open>
  Claim C4. The middleware calls \<^verbatim>\<open>next()\<close>, with the decoded payload stored in
  \<^verbatim>\<open>req.user\<close>, exactly when the Authorization header is present, has a non-empty
  second segment, and that segment verifies. In every other case it responds with status
  401 and the handler is not invoked: with the no-token message when the header is
  missing, with the invalid-format message when there is no second segment, with the
  expired message when verification throws a TokenExpiredError, and with the invalid-token
  message on any other verification error. \<open>verifyToken\<close> takes no store and
  returns none: it cannot access the database.
\<close>

theorem verifyToken_gate:
  "(verifyToken env req = Next req' \<longleftrightarrow>
      (\<exists>h token decoded. authorization req = Some h \<and> h \<noteq> [] \<and>
         at_index (split_on CHR '' '' h) 1 = Some token \<and> token \<noteq> [] \<and>
         jwt_verify env token = Inr decoded \<and> req' = req\<lparr>req_user := decoded\<rparr>))
   \<and> (\<forall>r. verifyToken env req = Respond r \<longrightarrow> status r = 401)
   \<and> (authorization req = None \<or> authorization req = Some [] \<longrightarrow>
        verifyToken env req =
          Respond (failure 401 (cross_mark @ '' No token provided. Please login first.'')))
   \<and> (\<forall>h. authorization req = Some h \<and> h \<noteq> [] \<and>
            at_index (split_on CHR '' '' h) 1 \<in> {None, Some []} \<longrightarrow>
        verifyToken env req = Respond (failure 401 (cross_mark @ '' Invalid token format'')))
   \<and> (\<forall>h token e. authorization req = Some h \<and> h \<noteq> [] \<and>
            at_index (split_on CHR '' '' h) 1 = Some token \<and> token \<noteq> [] \<and>
            jwt_verify env token = Inl e \<longrightarrow>
        verifyToken env req =
          Respond (failure 401
            (if ename e = ''TokenExpiredError''
             then cross_mark @ '' Token expired. Please login again.''
             else cross_mark @ '' Invalid token: '' @ message e)))"
  apply (intro conjI allI impI)
      apply (auto simp: verifyToken_def split: option.splits sum.splits if_splits)[1]
     apply (auto simp: verifyToken_def failure_def split: option.splits sum.splits if_splits)[1]
    apply (auto simp: verifyToken_def split: option.splits sum.splits)[1]
   apply (auto simp: verifyToken_def split: option.splits sum.splits)[1]
  apply (auto simp: verifyToken_def split: option.splits sum.splits)[1]
  done

theorem verifyToken_gate_witness:
  "verifyToken example_env (example_request (Some ''Bearer tok:1'') [])
     = Next ((example_request (Some ''Bearer tok:1'') [])\<lparr>req_user := JObj [(''userId'', JNum 1)]\<rparr>)
   \<and> verifyToken example_env (example_request None [])
     = Respond (failure 401 (cross_mark @ '' No token provided. Please login first.''))
   \<and> verifyToken example_env (example_request (Some ''Bearer'') [])
     = Respond (failure 401 (cross_mark @ '' Invalid token format''))
   \<and> verifyToken example_env (example_request (Some ''Bearer old'') [])
     = Respond (failure 401 (cross_mark @ '' Token expired. Please login again.''))"
proof (intro conjI)
  show "verifyToken example_env (example_request (Some ''Bearer tok:1'') [])
     = Next ((example_request (Some ''Bearer tok:1'') [])\<lparr>req_user := JObj [(''userId'', JNum 1)]\<rparr>)"
    by (rule iffD2 [OF conjunct1 [OF verifyToken_gate]])
       (simp add: example_env_def example_request_def)
  show "verifyToken example_env (example_request None [])
     = Respond (failure 401 (cross_mark @ '' No token provided. Please login first.''))"
    by (rule mp [OF conjunct1 [OF conjunct2 [OF conjunct2 [OF verifyToken_gate]]]])
       (simp add: example_request_def)
  have "at_index (split_on CHR '' '' ''Bearer'') 1 \<in> {None, Some []}" by simp
  then show "verifyToken example_env (example_request (Some ''Bearer'') [])
     = Respond (failure 401 (cross_mark @ '' Invalid token format''))"
    using verifyToken_gate [of example_env "example_request (Some ''Bearer'') []"]
    by (simp add: example_request_def)
  have "jwt_verify example_env ''old'' = Inl \<lparr>ename = ''TokenExpiredError'', code = None, message = ''jwt expired'', detail = None\<rparr>"
    by (simp add: example_env_def)
  moreover have "at_index (split_on CHR '' '' ''Bearer old'') 1 = Some ''old''" by simp
  ultimately show "verifyToken example_env (example_request (Some ''Bearer old'') [])
     = Respond (failure 401 (cross_mark @ '' Token expired. Please login again.''))"
    using verifyToken_gate [of example_env "example_request (Some ''Bearer old'') []"]
    by (simp add: example_request_def)
qed

text \<open>
  Claim C9. The scheme of the Authorization header is never inspected: for a header
  made of a scheme, a space and a token, whatever the scheme, the token is what gets verified, and the request
  is authenticated when it verifies. A non-empty header without a space is rejected
  with 401 and the invalid-format message.
\<close>

theorem verifyToken_ignores_scheme:
  "(CHR '' '' \<notin> set scheme \<and> CHR '' '' \<notin> set token \<and> token \<noteq> [] \<longrightarrow>
      verifyToken env (req\<lparr>authorization := Some (scheme @ '' '' @ token)\<rparr>) =
        (case jwt_verify env token of
           Inr decoded \<Rightarrow> Next (req\<lparr>authorization := Some (scheme @ '' '' @ token), req_user := decoded\<rparr>)
         | Inl e \<Rightarrow> Respond (failure 401
            (if ename e = ''TokenExpiredError''
             then cross_mark @ '' Token expired. Please login again.''
             else cross_mark @ '' Invalid token: '' @ message e))))
   \<and> (h \<noteq> [] \<and> CHR '' '' \<notin> set h \<longrightarrow>
        verifyToken env (req\<lparr>authorization := Some h\<rparr>) =
          Respond (failure 401 (cross_mark @ '' Invalid token format'')))"
proof (intro conjI impI)
  assume a: "CHR '' '' \<notin> set scheme \<and> CHR '' '' \<notin> set token \<and> token \<noteq> []"
  then have "at_index (split_on CHR '' '' (scheme @ '' '' @ token)) 1 = Some token"
    using second_segment [of scheme token] by simp
  with a show "verifyToken env (req\<lparr>authorization := Some (scheme @ '' '' @ token)\<rparr>) =
        (case jwt_verify env token of
           Inr decoded \<Rightarrow> Next (req\<lparr>authorization := Some (scheme @ '' '' @ token), req_user := decoded\<rparr>)
         | Inl e \<Rightarrow> Respond (failure 401
            (if ename e = ''TokenExpiredError''
             then cross_mark @ '' Token expired. Please login again.''
             else cross_mark @ '' Invalid token: '' @ message e)))"
    by (simp add: verifyToken_def split: sum.splits)
next
  assume "h \<noteq> [] \<and> CHR '' '' \<notin> set h"
  then show "verifyToken env (req\<lparr>authorization := Some h\<rparr>) =
          Respond (failure 401 (cross_mark @ '' Invalid token format''))"
    by (simp add: verifyToken_def split_on_no_sep)
qed

theorem verifyToken_ignores_scheme_witness:
  "verifyToken example_env (example_request (Some ''Basic tok:1'') [])
     = Next ((example_request (Some ''Basic tok:1'') [])\<lparr>req_user := JObj [(''userId'', JNum 1)]\<rparr>)
   \<and> verifyToken example_env (example_request (Some ''tok:1'') [])
     = Respond (failure 401 (cross_mark @ '' Invalid token format''))"
  using verifyToken_ignores_scheme [of "''Basic''" "''tok:1''" example_env "example_request None []" "''tok:1''"]
  by (simp add: example_env_def example_request_def)

section \<open>The credential store adapter\<close>

text \<open>
  Claim C7. Whatever columns the users table has, the display-name expression is
  \<^verbatim>\<open>COALESCE(full_name, name)\<close> when both columns exist (which yields full_name unless
  it is NULL), the one existing column when exactly one exists and \<^verbatim>\<open>NULL\<close> when
  neither exists; the created-at expression is \<^verbatim>\<open>created_at\<close> when that column exists
  and the literal \<^verbatim>\<open>NOW()\<close> otherwise. Neither lookup changes the cache or the database.
\<close>

theorem name_and_created_at_expressions:
  "run pg getNameExpr (c, d) =
     (Inr (if ''full_name'' \<in> set (user_cols d) \<and> ''name'' \<in> set (user_cols d)
           then ''COALESCE(full_name, name)''
           else if ''full_name'' \<in> set (user_cols d) then ''full_name''
           else if ''name'' \<in> set (user_cols d) then ''name''
           else ''NULL''), (c, d))
   \<and> run pg getCreatedAtExpr (c, d) =
     (Inr (if ''created_at'' \<in> set (user_cols d) then ''created_at'' else ''NOW()''), (c, d))
   \<and> (\<forall>r. eval_expr d ''COALESCE(full_name, name)'' r =
          (if sql_null (cell r ''full_name'') then cell r ''name'' else cell r ''full_name''))"
proof (intro conjI allI)
  show "run pg getNameExpr (c, d) =
     (Inr (if ''full_name'' \<in> set (user_cols d) \<and> ''name'' \<in> set (user_cols d)
           then ''COALESCE(full_name, name)''
           else if ''full_name'' \<in> set (user_cols d) then ''full_name''
           else if ''name'' \<in> set (user_cols d) then ''name''
           else ''NULL''), (c, d))"
    by (simp add: getNameExpr_def run_await_query pg_simps column_names_catalog JStr_in_set
          del: set_map)
  show "run pg getCreatedAtExpr (c, d) =
     (Inr (if ''created_at'' \<in> set (user_cols d) then ''created_at'' else ''NOW()''), (c, d))"
    by (simp add: getCreatedAtExpr_def run_await_query pg_simps filter_empty_conv)
  show "\<And>r. eval_expr d ''COALESCE(full_name, name)'' r =
          (if sql_null (cell r ''full_name'') then cell r ''name'' else cell r ''full_name'')"
    by (simp add: eval_expr_def)
qed

theorem name_and_created_at_expressions_witness:
  "run pg getNameExpr (JNull, example_db) = (Inr ''name'', (JNull, example_db))
   \<and> run pg getCreatedAtExpr (JNull, example_db) = (Inr ''created_at'', (JNull, example_db))"
  using name_and_created_at_expressions [of JNull example_db]
  by (simp add: example_db_def)

section \<open>register\<close>

text \<open>
  Claim C5. When email or password is missing (falsy), register is the program that
  answers 400 with the message that email and password are required; when both are
  given but the password is not a string of at least 6 characters, it is the program
  that answers 400 with the message about the password length. In both cases the
  program awaits nothing, no connection and no statement, so against any store the
  response is sent with status 400 and the cache and the store are left as they were.
\<close>

theorem register_validation:
  "(\<not> truthy (field (body_or_empty req) ''email'') \<or> \<not> truthy (field (body_or_empty req) ''password'')
      \<longrightarrow> register env req = Done (Inr (failure 400 ''Email and password required'')))
   \<and> (truthy (field (body_or_empty req) ''email'') \<and> truthy (field (body_or_empty req) ''password'')
        \<and> (\<forall>s. field (body_or_empty req) ''password'' = JStr s \<longrightarrow> js_length s < 6)
      \<longrightarrow> register env req = Done (Inr (failure 400 ''Password must be at least 6 characters'')))
   \<and> (\<not> truthy (field (body_or_empty req) ''email'') \<or> \<not> truthy (field (body_or_empty req) ''password'')
        \<or> (\<forall>s. field (body_or_empty req) ''password'' = JStr s \<longrightarrow> js_length s < 6)
      \<longrightarrow> (\<forall>st cs. (\<exists>r. fst (run st (register env req) cs) = Inr r \<and> status r = 400)
                    \<and> snd (run st (register env req) cs) = cs))"
  by (auto simp: register_def Let_def failure_def split: jsval.splits)

theorem register_validation_witness:
  "register example_env (example_request None [(''email'', JStr ''a@x.com''), (''password'', JStr ''abc'')])
     = Done (Inr (failure 400 ''Password must be at least 6 characters''))
   \<and> register example_env (example_request None [(''password'', JStr ''secret1'')])
     = Done (Inr (failure 400 ''Email and password required''))
   \<and> snd (run pg (register example_env (example_request None [(''password'', JStr ''secret1'')]))
            (JNull, example_db)) = (JNull, example_db)"
proof (intro conjI)
  show "register example_env (example_request None [(''email'', JStr ''a@x.com''), (''password'', JStr ''abc'')])
     = Done (Inr (failure 400 ''Password must be at least 6 characters''))"
    by (rule mp [OF conjunct1 [OF conjunct2 [OF register_validation]]])
       (simp add: example_request_def body_or_empty_def js_length_def)
  show "register example_env (example_request None [(''password'', JStr ''secret1'')])
       = Done (Inr (failure 400 ''Email and password required''))"
    by (rule mp [OF conjunct1 [OF register_validation]])
       (simp add: example_request_def body_or_empty_def)
  have "\<forall>st cs. (\<exists>r. fst (run st (register example_env
              (example_request None [(''password'', JStr ''secret1'')])) cs) = Inr r \<and> status r = 400)
          \<and> snd (run st (register example_env
              (example_request None [(''password'', JStr ''secret1'')])) cs) = cs"
    by (rule mp [OF conjunct2 [OF conjunct2 [OF register_validation]]])
       (simp add: example_request_def body_or_empty_def)
  then show "snd (run pg (register example_env (example_request None [(''password'', JStr ''secret1'')]))
            (JNull, example_db)) = (JNull, example_db)"
    by blast
qed

section \<open>login\<close>

lemma missing_col_None: "missing_col d cs = None \<longleftrightarrow> set cs \<subseteq> set (user_cols d)"
  by (auto simp: missing_col_def find_None_iff)

lemma run_getUserIdColumn:
  "run pg getUserIdColumn (c, d) = (Inr (id_column c d), (id_column c d, d))"
proof (cases "truthy c")
  case True
  then show ?thesis by (simp add: getUserIdColumn_def id_column_def)
next
  case False
  show ?thesis
  proof (cases "filter (\<lambda>x. x = ''id'' \<or> x = ''user_id'') (user_cols d)")
    case Nil
    with False show ?thesis
      by (simp add: getUserIdColumn_def id_column_def run_await_query pg_simps Let_def)
  next
    case (Cons x xs)
    then have "x \<in> set (filter (\<lambda>x. x = ''id'' \<or> x = ''user_id'') (user_cols d))" by simp
    then have "x \<noteq> []" by auto
    with False Cons show ?thesis
      by (simp add: getUserIdColumn_def id_column_def run_await_query pg_simps cell_def Let_def)
  qed
qed

lemma run_getNameExpr: "run pg getNameExpr (c, d) = (Inr (name_expr d), (c, d))"
  by (simp add: getNameExpr_def run_await_query pg_simps column_names_catalog JStr_in_set
        name_expr_def del: set_map)

lemma name_expr_cols: "set (expr_cols (name_expr d)) \<subseteq> set (user_cols d)"
  by (simp add: name_expr_def expr_cols_def)

lemma id_column_text:
  "id_column_known c d \<Longrightarrow> js_String env (id_column c d) = Inr (the_string (id_column c d))"
  by (auto simp: id_column_known_def)

lemma id_column_cols:
  "id_column_known c d \<Longrightarrow> set (expr_cols (the_string (id_column c d))) \<subseteq> set (user_cols d)"
  by (auto simp: id_column_known_def expr_cols_def)

lemma run_login_lookup:
  assumes "id_column_known c d" "''email'' \<in> set (user_cols d)" "''password_hash'' \<in> set (user_cols d)"
  shows "run pg (and_then getUserIdColumn (\<lambda>idCol. and_then getNameExpr (\<lambda>nameExpr.
            case js_String env idCol of
              Inl thrown \<Rightarrow> Done (Inl thrown)
            | Inr idColText \<Rightarrow> await_query (SelectLogin idColText nameExpr (JStr em)) k))) (c, d)
         = run pg (k (login_rows c d em)) (id_column c d, d)"
proof -
  have "missing_col d (expr_cols (the_string (id_column c d)) @ [''email''] @ expr_cols (name_expr d)
          @ [''password_hash'']) = None"
    using assms id_column_cols [of c d] name_expr_cols [of d] by (simp add: missing_col_None)
  then show ?thesis
    by (simp add: run_and_then run_getUserIdColumn run_getNameExpr run_await_query pg_simps
          login_rows_def id_column_text [OF assms(1)])
qed

lemma cell_password_hash: "cell [(''uid'', a), (''email'', b), (''name'', n), (''password_hash'', h)] ''password_hash'' = h"
  by (simp add: cell_def)

text \<open>
  What login does guarantee. On a users table on which the lookup can run (a known
  identifier column, an email and a password_hash column), a request with email and
  password present gets one and the same response, status 401 with success false and
  the message Invalid credentials, in each of three cases: no row has the normalized
  email; the first such row has no password hash (NULL or empty); the first such row
  has a hash and \<^verbatim>\<open>bcrypt.compare\<close> answers false. The database is unchanged.
\<close>

lemma login_generic_failures:
  assumes "id_column_known c d" "''email'' \<in> set (user_cols d)" "''password_hash'' \<in> set (user_cols d)"
    and "truthy (field (body_or_empty req) ''email'')" "truthy (field (body_or_empty req) ''password'')"
    and "normalized_email env req = Inr em"
    and "matching = filter (\<lambda>r. sql_eq (cell r ''email'') (JStr em)) (users d)"
    and "matching = []
         \<or> (\<exists>u rest. matching = u # rest \<and> \<not> truthy (cell u ''password_hash''))
         \<or> (\<exists>u rest. matching = u # rest \<and> truthy (cell u ''password_hash'')
              \<and> bcrypt_compare env (field (body_or_empty req) ''password'') (cell u ''password_hash'')
                 = Inr False)"
  shows "fst (run pg (login env req) (c, d)) = Inr (failure 401 ''Invalid credentials'')
         \<and> snd (snd (run pg (login env req) (c, d))) = d"
proof -
  from assms(6) obtain str where t: "js_String env (field (body_or_empty req) ''email'') = Inr str"
    and em: "em = toLowerCase env str"
    by (auto simp: normalized_email_def split: sum.splits)
  show ?thesis
    using assms(4,5,7,8) t
    by (auto simp: login_def Let_def run_responds run_try_catch run_await_connect pg_simps
          run_login_lookup [OF assms(1-3)] login_rows_def cell_password_hash em)
qed

lemma login_rejecting_compare:
  assumes "id_column_known c d" "''email'' \<in> set (user_cols d)" "''password_hash'' \<in> set (user_cols d)"
    and "truthy (field (body_or_empty req) ''email'')" "truthy (field (body_or_empty req) ''password'')"
    and "normalized_email env req = Inr em"
    and "filter (\<lambda>r. sql_eq (cell r ''email'') (JStr em)) (users d) = u # rest"
    and "truthy (cell u ''password_hash'')"
    and "bcrypt_compare env (field (body_or_empty req) ''password'') (cell u ''password_hash'') = Inl e"
  shows "fst (run pg (login env req) (c, d)) = Inr (failure 500 ''Internal server error'')"
proof -
  from assms(6) obtain str where t: "js_String env (field (body_or_empty req) ''email'') = Inr str"
    and em: "em = toLowerCase env str"
    by (auto simp: normalized_email_def split: sum.splits)
  show ?thesis
    using assms(4,5,7,8,9) t
    by (simp add: login_def Let_def run_responds run_try_catch run_await_connect pg_simps
          run_login_lookup [OF assms(1-3)] login_rows_def cell_password_hash em)
qed

text \<open>
  Claim C3, where login departs from it. login does not check that the password is a
  string, as register does. When \<^verbatim>\<open>bcrypt.compare\<close> rejects, which bcryptjs does for a
  password that is not a string, the rejection is caught and a request for an existing
  user with a password hash is answered 500 Internal server error, while the same
  request for an email that has no row is answered 401 Invalid credentials: the two
  causes of failure are told apart.
\<close>

theorem login_non_string_password_tells_users_apart:
  assumes "id_column_known c d" "''email'' \<in> set (user_cols d)" "''password_hash'' \<in> set (user_cols d)"
    and "truthy (field (body_or_empty req) ''email'')" "truthy (field (body_or_empty req) ''password'')"
    and "normalized_email env req = Inr em"
    and "matching = filter (\<lambda>r. sql_eq (cell r ''email'') (JStr em)) (users d)"
  shows "(matching = [] \<longrightarrow>
            fst (run pg (login env req) (c, d)) = Inr (failure 401 ''Invalid credentials''))
       \<and> ((\<exists>u rest e. matching = u # rest \<and> truthy (cell u ''password_hash'')
              \<and> bcrypt_compare env (field (body_or_empty req) ''password'') (cell u ''password_hash'')
                 = Inl e) \<longrightarrow>
            fst (run pg (login env req) (c, d)) = Inr (failure 500 ''Internal server error''))"
proof (intro conjI impI)
  assume "matching = []"
  with login_generic_failures [OF assms(1-6) assms(7)]
  show "fst (run pg (login env req) (c, d)) = Inr (failure 401 ''Invalid credentials'')"
    by blast
next
  assume "\<exists>u rest e. matching = u # rest \<and> truthy (cell u ''password_hash'')
              \<and> bcrypt_compare env (field (body_or_empty req) ''password'') (cell u ''password_hash'')
                 = Inl e"
  then obtain u rest e where m: "matching = u # rest" and h: "truthy (cell u ''password_hash'')"
    and r: "bcrypt_compare env (field (body_or_empty req) ''password'') (cell u ''password_hash'') = Inl e"
    by blast
  from m assms(7) have "filter (\<lambda>r. sql_eq (cell r ''email'') (JStr em)) (users d) = u # rest"
    by simp
  from login_rejecting_compare [OF assms(1-6) this h r]
  show "fst (run pg (login env req) (c, d)) = Inr (failure 500 ''Internal server error'')" .
qed

lemma example_users_known:
  "id_column_known JNull example_users_db"
  "''email'' \<in> set (user_cols example_users_db)"
  "''password_hash'' \<in> set (user_cols example_users_db)"
  by (simp_all add: id_column_known_def id_column_def example_users_db_def example_db_def)

lemma ascii_lower_examples:
  "ascii_lower ''a@x.com'' = ''a@x.com''"
  "ascii_lower ''A@X.com'' = ''a@x.com''"
  "ascii_lower ''nobody@x.com'' = ''nobody@x.com''"
  by (simp_all add: ascii_lower_def lower_char_def)

theorem login_non_string_password_tells_users_apart_witness:
  "fst (run pg (login example_env
          (example_request None [(''email'', JStr ''a@x.com''), (''password'', JNum 123456)]))
        (JNull, example_users_db)) = Inr (failure 500 ''Internal server error'')
   \<and> fst (run pg (login example_env
          (example_request None [(''email'', JStr ''nobody@x.com''), (''password'', JNum 123456)]))
        (JNull, example_users_db)) = Inr (failure 401 ''Invalid credentials'')"
proof (intro conjI)
  let ?known = "example_request None [(''email'', JStr ''a@x.com''), (''password'', JNum 123456)]"
  let ?unknown = "example_request None [(''email'', JStr ''nobody@x.com''), (''password'', JNum 123456)]"
  have t: "truthy (field (body_or_empty ?known) ''email'')" "truthy (field (body_or_empty ?known) ''password'')"
    "truthy (field (body_or_empty ?unknown) ''email'')" "truthy (field (body_or_empty ?unknown) ''password'')"
    by (simp_all add: example_request_def body_or_empty_def)
  have n: "normalized_email example_env ?known = Inr ''a@x.com''"
    "normalized_email example_env ?unknown = Inr ''nobody@x.com''"
    by (simp_all add: normalized_email_def example_request_def body_or_empty_def example_env_def
          ascii_lower_examples)
  have found: "\<exists>u rest e. filter (\<lambda>r. sql_eq (cell r ''email'') (JStr ''a@x.com'')) (users example_users_db)
                 = u # rest \<and> truthy (cell u ''password_hash'')
              \<and> bcrypt_compare example_env (field (body_or_empty ?known) ''password'')
                   (cell u ''password_hash'') = Inl e"
    by (simp add: example_users_db_def example_db_def sql_eq_def sql_null_def cell_def
          example_request_def body_or_empty_def example_env_def)
  have none: "filter (\<lambda>r. sql_eq (cell r ''email'') (JStr ''nobody@x.com'')) (users example_users_db) = []"
    by (simp add: example_users_db_def example_db_def sql_eq_def sql_null_def cell_def)
  show "fst (run pg (login example_env ?known) (JNull, example_users_db))
        = Inr (failure 500 ''Internal server error'')"
    by (rule mp [OF conjunct2 [OF login_non_string_password_tells_users_apart
            [OF example_users_known t(1,2) n(1) refl]] found])
  show "fst (run pg (login example_env ?unknown) (JNull, example_users_db))
        = Inr (failure 401 ''Invalid credentials'')"
    by (rule mp [OF conjunct1 [OF login_non_string_password_tells_users_apart
            [OF example_users_known t(3,4) n(2) refl]] none])
qed

section \<open>The verify-access route\<close>

lemma pg_select_access:
  "pg_query (SelectAccess user_id qr_code_id) d =
     (case read_user_id d user_id of
        Inl e \<Rightarrow> (Inl e, d)
      | Inr uid \<Rightarrow>
          (case read_qr_code d qr_code_id of
             Inl e \<Rightarrow> (Inl e, d)
           | Inr qr \<Rightarrow> (Inr (access_rows d uid qr), d)))"
  by (simp add: access_rows_def split: sum.splits)

lemma set_access_rows:
  "set (access_rows d uid qr) =
     {access_row b r bt | b r bt. b \<in> set (bookings d) \<and> r \<in> set (rooms d)
        \<and> bt \<in> set (booking_tokens d) \<and> access_row_ok d uid qr b r bt}"
  by (auto simp: access_rows_def)

lemma access_row_cells:
  "cell (access_row b r bt) ''token_id'' = cell bt ''token_id''"
  "cell (access_row b r bt) ''digital_signature'' = cell bt ''digital_signature''"
  by (simp_all add: access_row_def cell_def)

lemma access_row_ok_iff:
  "access_row_ok d uid qr b r bt \<longleftrightarrow>
     (sql_eq (cell b ''user_id'') uid \<and> sql_eq (cell r ''qr_code_id'') qr
      \<and> sql_eq (cell b ''room_id'') (cell r ''room_id'')
      \<and> sql_eq (cell bt ''booking_id'') (cell b ''booking_id'')
      \<and> cell bt ''is_valid'' = JBool True
      \<and> (\<exists>check_in check_out. cell b ''check_in_time'' = JNum check_in
            \<and> cell b ''check_out_time'' = JNum check_out
            \<and> check_in \<le> clock d \<and> clock d \<le> check_out))"
proof -
  have le1: "\<And>v n. sql_le v (JNum n) \<longleftrightarrow> (\<exists>m. v = JNum m \<and> m \<le> n)"
    subgoal for v n by (cases v) auto
    done
  have le2: "\<And>v n. sql_le (JNum n) v \<longleftrightarrow> (\<exists>m. v = JNum m \<and> n \<le> m)"
    subgoal for v n by (cases v) auto
    done
  show ?thesis
    by (auto simp: access_row_ok_def sql_eq_def le1 le2)
qed

lemma run_verify_access:
  assumes "truthy (field (req_body req) ''user_id'')" "truthy (field (req_body req) ''qr_code_id'')"
  shows "run pg (verify_access req) (c, d) =
      ((case read_user_id d (field (req_body req) ''user_id'') of
          Inl e \<Rightarrow> Inr (failure 500 (message e))
        | Inr uid \<Rightarrow>
           (case read_qr_code d (field (req_body req) ''qr_code_id'') of
              Inl e \<Rightarrow> Inr (failure 500 (message e))
            | Inr qr \<Rightarrow>
               (case access_rows d uid qr of
                  [] \<Rightarrow> Inr (failure 403 ''Verification failed. Invalid or expired booking.'')
                | booking # _ \<Rightarrow> Inr \<lparr>status = 200,
                                  body = JObj [(''success'', JBool True),
                                               (''message'', JStr ''Access granted!''),
                                               (''booking_token'', cell booking ''token_id''),
                                               (''digital_signature'',
                                                cell booking ''digital_signature'')]\<rparr>))), (c, d))"
proof -
  from assms have "req_body req \<noteq> JUndefined" "req_body req \<noteq> JNull" by auto
  with assms show ?thesis
    by (simp add: verify_access_def Let_def run_responds run_try_catch run_await_connect
          run_await_query pg_simps pg_select_access del: pg_query.simps
          split: list.splits sum.splits)
qed

text \<open>
  Claim C8, as the code has it. Take a request whose body has a user identifier U and a
  QR code Q, both truthy. The database reads the two bound parameters as values of the
  columns they are compared with. When it reads U as u and Q as q, call a booking, a
  room and a booking token active when the booking's user_id equals u, the room's
  qr_code_id equals q, the booking is for the room, the token is for the booking and has
  is_valid = true, and check_in_time <= now <= check_out_time. If some such triple exists
  the response is 200 with the token_id and the stored digital_signature of such a
  token; if none exists it is the one 403 response with the generic message, whichever
  condition failed. When the database cannot read a parameter, the error it raises is
  caught and the response is 500 with the message of that error, neither 200 nor 403.
  The database is only read.
\<close>

theorem verify_access_decision:
  assumes "U = field (req_body req) ''user_id''" "Q = field (req_body req) ''qr_code_id''"
    and "truthy U" "truthy Q"
    and "active = (\<lambda>u q b r bt. b \<in> set (bookings d) \<and> r \<in> set (rooms d) \<and> bt \<in> set (booking_tokens d)
      \<and> sql_eq (cell b ''user_id'') u \<and> sql_eq (cell r ''qr_code_id'') q
      \<and> sql_eq (cell b ''room_id'') (cell r ''room_id'')
      \<and> sql_eq (cell bt ''booking_id'') (cell b ''booking_id'')
      \<and> cell bt ''is_valid'' = JBool True
      \<and> (\<exists>check_in check_out. cell b ''check_in_time'' = JNum check_in
            \<and> cell b ''check_out_time'' = JNum check_out
            \<and> check_in \<le> clock d \<and> clock d \<le> check_out))"
  shows "snd (run pg (verify_access req) (c, d)) = (c, d)
    \<and> (\<forall>u q. read_user_id d U = Inr u \<and> read_qr_code d Q = Inr q \<longrightarrow>
         ((\<exists>b r bt. active u q b r bt) \<longrightarrow>
            (\<exists>b r bt. active u q b r bt \<and>
               fst (run pg (verify_access req) (c, d)) =
                 Inr \<lparr>status = 200,
                      body = JObj [(''success'', JBool True), (''message'', JStr ''Access granted!''),
                                   (''booking_token'', cell bt ''token_id''),
                                   (''digital_signature'', cell bt ''digital_signature'')]\<rparr>))
         \<and> (\<not> (\<exists>b r bt. active u q b r bt) \<longrightarrow>
            fst (run pg (verify_access req) (c, d)) =
              Inr (failure 403 ''Verification failed. Invalid or expired booking.'')))
    \<and> (\<forall>e. read_user_id d U = Inl e
            \<or> (\<exists>u. read_user_id d U = Inr u) \<and> read_qr_code d Q = Inl e \<longrightarrow>
         fst (run pg (verify_access req) (c, d)) = Inr (failure 500 (message e)))"
proof (intro conjI allI impI)
  note run = run_verify_access [of req c d, folded assms(1,2), OF assms(3,4)]
  show "snd (run pg (verify_access req) (c, d)) = (c, d)"
    by (simp add: run)
  {
    fix e
    assume "read_user_id d U = Inl e \<or> (\<exists>u. read_user_id d U = Inr u) \<and> read_qr_code d Q = Inl e"
    then show "fst (run pg (verify_access req) (c, d)) = Inr (failure 500 (message e))"
      by (auto simp: run)
  }
  fix u q
  assume rd: "read_user_id d U = Inr u \<and> read_qr_code d Q = Inr q"
  let ?rows = "access_rows d u q"
  have run': "fst (run pg (verify_access req) (c, d)) =
      (case ?rows of
         [] \<Rightarrow> Inr (failure 403 ''Verification failed. Invalid or expired booking.'')
       | booking # _ \<Rightarrow> Inr \<lparr>status = 200,
                                  body = JObj [(''success'', JBool True),
                                               (''message'', JStr ''Access granted!''),
                                               (''booking_token'', cell booking ''token_id''),
                                               (''digital_signature'',
                                                cell booking ''digital_signature'')]\<rparr>)"
    using rd by (simp add: run)
  have rows: "set ?rows = {access_row b r bt | b r bt. active u q b r bt}"
    by (auto simp: set_access_rows assms(5) access_row_ok_iff)
  {
    assume "\<exists>b r bt. active u q b r bt"
    with rows have "set ?rows \<noteq> {}" by auto
    then obtain x xs where Cons: "?rows = x # xs" by (cases ?rows) auto
    then have "x \<in> set ?rows" by simp
    with rows obtain b r bt where x: "x = access_row b r bt" "active u q b r bt" by auto
    with Cons run' show "\<exists>b r bt. active u q b r bt \<and>
               fst (run pg (verify_access req) (c, d)) =
                 Inr \<lparr>status = 200,
                      body = JObj [(''success'', JBool True), (''message'', JStr ''Access granted!''),
                                   (''booking_token'', cell bt ''token_id''),
                                   (''digital_signature'', cell bt ''digital_signature'')]\<rparr>"
      by (auto simp: access_row_cells)
  }
  assume "\<not> (\<exists>b r bt. active u q b r bt)"
  with rows have "?rows = []" by (cases ?rows) auto
  with run' show "fst (run pg (verify_access req) (c, d)) =
              Inr (failure 403 ''Verification failed. Invalid or expired booking.'')"
    by simp
qed

lemma digit_table:
  "zip ''0123456789'' [0 ..< 10] =
     [(CHR ''0'', 0), (CHR ''1'', 1), (CHR ''2'', 2), (CHR ''3'', 3), (CHR ''4'', 4),
      (CHR ''5'', 5), (CHR ''6'', 6), (CHR ''7'', 7), (CHR ''8'', 8), (CHR ''9'', 9 :: nat)]"
  by (simp add: upt_conv_Cons)

lemma example_read_integer_examples:
  "example_read_integer (JStr ''1'') = Inr (JNum 1)"
  "example_read_integer (JNum 2) = Inr (JNum 2)"
  "example_read_integer (JNum 77) = Inr (JNum 77)"
  "example_read_integer (JStr ''abc'') = Inl (invalid_integer ''abc'')"
  by (simp_all add: digit_table)

lemma example_booking_readers:
  "read_user_id example_booking_db = example_read_integer"
  "read_qr_code example_booking_db = example_read_integer"
  by (simp_all add: example_booking_db_def example_db_def)

theorem verify_access_decision_witness:
  "fst (run pg (verify_access (example_request None [(''user_id'', JStr ''1''), (''qr_code_id'', JNum 77)]))
         (JNull, example_booking_db)) =
     Inr \<lparr>status = 200,
          body = JObj [(''success'', JBool True), (''message'', JStr ''Access granted!''),
                       (''booking_token'', JNum 9), (''digital_signature'', JStr ''sig'')]\<rparr>
   \<and> fst (run pg (verify_access (example_request None [(''user_id'', JNum 2), (''qr_code_id'', JNum 77)]))
         (JNull, example_booking_db)) =
     Inr (failure 403 ''Verification failed. Invalid or expired booking.'')
   \<and> fst (run pg (verify_access (example_request None [(''user_id'', JStr ''abc''), (''qr_code_id'', JNum 77)]))
         (JNull, example_booking_db)) =
     Inr (failure 500 (message (invalid_integer ''abc'')))"
proof (intro conjI)
  let ?one = "example_request None [(''user_id'', JStr ''1''), (''qr_code_id'', JNum 77)]"
  let ?two = "example_request None [(''user_id'', JNum 2), (''qr_code_id'', JNum 77)]"
  let ?abc = "example_request None [(''user_id'', JStr ''abc''), (''qr_code_id'', JNum 77)]"
  have f: "field (req_body ?one) ''user_id'' = JStr ''1''" "field (req_body ?one) ''qr_code_id'' = JNum 77"
    "field (req_body ?two) ''user_id'' = JNum 2" "field (req_body ?two) ''qr_code_id'' = JNum 77"
    "field (req_body ?abc) ''user_id'' = JStr ''abc''" "field (req_body ?abc) ''qr_code_id'' = JNum 77"
    by (simp_all add: example_request_def)
  note one = verify_access_decision [where req = ?one and d = example_booking_db and c = JNull,
      OF f(1,2) [symmetric] _ _ refl]
  note two = verify_access_decision [where req = ?two and d = example_booking_db and c = JNull,
      OF f(3,4) [symmetric] _ _ refl]
  note abc = verify_access_decision [where req = ?abc and d = example_booking_db and c = JNull,
      OF f(5,6) [symmetric] _ _ refl]
  show "fst (run pg (verify_access ?one) (JNull, example_booking_db)) =
     Inr \<lparr>status = 200,
          body = JObj [(''success'', JBool True), (''message'', JStr ''Access granted!''),
                       (''booking_token'', JNum 9), (''digital_signature'', JStr ''sig'')]\<rparr>"
    using conjunct1 [OF conjunct2 [OF one], rule_format, of "JNum 1" "JNum 77"]
    by (simp add: example_booking_readers example_read_integer_examples
          del: example_read_integer.simps)
       (simp add: example_booking_db_def example_db_def cell_def sql_eq_def sql_null_def)
  show "fst (run pg (verify_access ?two) (JNull, example_booking_db)) =
     Inr (failure 403 ''Verification failed. Invalid or expired booking.'')"
    using conjunct1 [OF conjunct2 [OF two], rule_format, of "JNum 2" "JNum 77"]
    by (simp add: example_booking_readers example_read_integer_examples
          del: example_read_integer.simps)
       (simp add: example_booking_db_def example_db_def cell_def sql_eq_def sql_null_def)
  show "fst (run pg (verify_access ?abc) (JNull, example_booking_db)) =
     Inr (failure 500 (message (invalid_integer ''abc'')))"
    using conjunct2 [OF conjunct2 [OF abc], rule_format, of "invalid_integer ''abc''"]
    by (simp add: example_booking_readers example_read_integer_examples
          del: example_read_integer.simps)
qed

text \<open>
  Claim C8 as stated fails on the code. In the example database bookings.user_id is an
  integer column, as users.user_id is. A request with user identifier \<^verbatim>\<open>abc\<close> and QR
  code 77 has both present, and no booking is owned by \<^verbatim>\<open>abc\<close>, yet the response is
  not the generic 403: it is 500 with the text of the database's error.
\<close>

theorem verify_access_unreadable_parameter_counterexample:
  "truthy (JStr ''abc'') \<and> truthy (JNum 77)
   \<and> filter (\<lambda>b. cell b ''user_id'' = JStr ''abc'') (bookings example_booking_db) = []
   \<and> fst (run pg (verify_access (example_request None [(''user_id'', JStr ''abc''), (''qr_code_id'', JNum 77)]))
         (JNull, example_booking_db)) =
     Inr (failure 500 (''invalid input syntax for type integer: '' @ [CHR 0x22] @ ''abc'' @ [CHR 0x22]))
   \<and> fst (run pg (verify_access (example_request None [(''user_id'', JStr ''abc''), (''qr_code_id'', JNum 77)]))
         (JNull, example_booking_db)) \<noteq>
     Inr (failure 403 ''Verification failed. Invalid or expired booking.'')"
proof -
  have f: "truthy (field (req_body (example_request None [(''user_id'', JStr ''abc''), (''qr_code_id'', JNum 77)])) ''user_id'')"
    "truthy (field (req_body (example_request None [(''user_id'', JStr ''abc''), (''qr_code_id'', JNum 77)])) ''qr_code_id'')"
    by (simp_all add: example_request_def)
  have r: "read_user_id example_booking_db
             (field (req_body (example_request None [(''user_id'', JStr ''abc''), (''qr_code_id'', JNum 77)])) ''user_id'')
           = Inl (invalid_integer ''abc'')"
    by (simp add: example_request_def example_booking_readers example_read_integer_examples
          del: example_read_integer.simps)
  have none: "filter (\<lambda>b. cell b ''user_id'' = JStr ''abc'') (bookings example_booking_db) = []"
    by (simp add: example_booking_db_def example_db_def cell_def)
  show ?thesis
    by (simp add: run_verify_access [OF f] r none invalid_integer_def failure_def)
qed

section \<open>updateProfile and getMe\<close>














lemma eval_id_column:
  "id_column_known c d \<Longrightarrow> eval_expr d (the_string (id_column c d)) r = cell r (the_string (id_column c d))"
  by (auto simp: id_column_known_def eval_expr_def)









section \<open>register against the database, alone and in a race\<close>


lemma register_valid:
  assumes "valid_registration req" "normalized_email env req = Inr em"
  shows "register env req
         = responds (try_catch (await_connect (reg_exists env req em)) (register_catch env))"
proof -
  from assms(1) have p: "\<not> (case field (body_or_empty req) ''password'' of JStr s \<Rightarrow> js_length s < 6 | _ \<Rightarrow> True)"
    and t: "truthy (field (body_or_empty req) ''email'')" "truthy (field (body_or_empty req) ''password'')"
    by (auto simp: valid_registration_def split: jsval.splits)
  from assms(2) obtain str where s: "js_String env (field (body_or_empty req) ''email'') = Inr str"
    and em: "em = toLowerCase env str"
    by (auto simp: normalized_email_def split: sum.splits)
  show ?thesis
    unfolding register_def reg_exists_def reg_columns_def reg_insert_def
      conflict_def created_def Let_def em
    by (simp add: p t s)
qed

lemma insert_columns_props:
  assumes "insert_columns (map JStr cols) em name ph ak = (insertCols, vals)"
  shows "set insertCols \<subseteq> set cols" "length insertCols = length vals"
    "''email'' \<in> set cols \<Longrightarrow> insertCols \<noteq> [] \<and> map_of (zip insertCols vals) ''email'' = Some (JStr em)"
  using assms by (auto simp: insert_columns_def Let_def split: if_splits)

lemma cell_new_row:
  "c \<in> set (user_cols d) \<Longrightarrow> map_of given c = Some v \<Longrightarrow> v \<noteq> JUndefined \<Longrightarrow>
   cell (new_row d given) c = v"
proof -
  have "map_of (map (\<lambda>c. (c, f c)) cs) c = (if c \<in> set cs then Some (f c) else None)" for f :: "string \<Rightarrow> jsval" and cs
    by (induction cs) auto
  then show "c \<in> set (user_cols d) \<Longrightarrow> map_of given c = Some v \<Longrightarrow> v \<noteq> JUndefined \<Longrightarrow>
   cell (new_row d given) c = v"
    by (simp add: cell_def new_row_def)
qed

lemma register_row_email:
  "''email'' \<in> set (user_cols d) \<Longrightarrow> cell (register_row env req em d) ''email'' = JStr em"
  unfolding register_row_def
  by (auto split: prod.splits dest!: insert_columns_props(3) intro!: cell_new_row)

lemma pg_insert:
  assumes "insert_columns (map JStr (user_cols d)) em name ph ak = (insertCols, vals)"
    and "''email'' \<in> set (user_cols d)"
  shows "pg_query (InsertUser insertCols vals) d =
     (if registered d em then (Inl unique_violation, d)
      else (Inr [], with_user d (new_row d (zip insertCols vals))))"
proof -
  note p = insert_columns_props [OF assms(1)]
  have m: "missing_col d insertCols = None" using p(1) by (simp add: missing_col_None)
  have e: "cell (new_row d (zip insertCols vals)) ''email'' = JStr em"
    using p(3) assms(2) by (auto intro!: cell_new_row)
  show ?thesis
    using p(2) p(3) assms(2) by (simp add: m e Let_def registered_def with_user_def sql_null_def)
qed

lemma pg_select_exists:
  "''email'' \<in> set (user_cols d) \<Longrightarrow>
   pg_query (SelectExists (JStr em)) d =
     (Inr (map (\<lambda>r. [(''?column?'', JNum 1)])
            (filter (\<lambda>r. sql_eq (cell r ''email'') (JStr em)) (users d))), d)"
  by (simp add: missing_col_def)

lemma exists_rows_empty:
  "map (\<lambda>r. [(''?column?'', JNum 1)]) (filter (\<lambda>r. sql_eq (cell r ''email'') (JStr em)) (users d)) = []
     \<longleftrightarrow> \<not> registered d em"
  by (auto simp: registered_def filter_empty_conv)

lemma pg_select_all_columns: "pg_query (SelectColumns None) d = (Inr (catalog d), d)"
  by (simp add: catalog_def)

lemma column_names_catalog_db: "column_names (catalog d) = map JStr (user_cols d)"
  by (simp add: catalog_def column_names_catalog)

lemma unique_violation_conflict: "register_catch env unique_violation = conflict"
  by (simp add: register_catch_def unique_violation_def conflict_def)

lemma run_reg_insert:
  assumes "''email'' \<in> set (user_cols d')" "user_cols d' = user_cols d"
  shows "run pg (responds (try_catch (reg_insert env req em (catalog d)) (register_catch env))) (c, d') =
     (if registered d' em then (Inr conflict, (c, d'))
      else (Inr created, (c, with_user d' (register_row env req em d'))))"
proof -
  obtain insertCols vals where ic: "insert_columns (map JStr (user_cols d')) em
             (field (body_or_empty req) ''name'')
             (bcrypt_hash env (the_string (field (body_or_empty req) ''password'')) 10)
             (random_hex env) = (insertCols, vals)"
    by (cases "insert_columns (map JStr (user_cols d')) em
             (field (body_or_empty req) ''name'')
             (bcrypt_hash env (the_string (field (body_or_empty req) ''password'')) 10)
             (random_hex env)") auto
  from insert_columns_props(3) [OF ic assms(1)] have ne: "insertCols \<noteq> []" by simp
  show ?thesis
    using ne ic assms(2)
    by (simp add: reg_insert_def register_row_def column_names_catalog_db run_responds run_try_catch
          run_await_query pg_simps pg_insert [OF ic assms(1)] unique_violation_conflict
          del: pg_query.simps)
qed

lemma run_reg_columns:
  assumes "''email'' \<in> set (user_cols d')" "user_cols d' = user_cols d"
  shows "run pg (responds (try_catch (reg_columns env req em) (register_catch env))) (c, d') =
     (if registered d' em then (Inr conflict, (c, d'))
      else (Inr created, (c, with_user d' (register_row env req em d'))))"
proof -
  have "run pg (responds (try_catch (reg_columns env req em) (register_catch env))) (c, d')
      = run pg (responds (try_catch (reg_insert env req em (catalog d')) (register_catch env))) (c, d')"
    by (simp add: reg_columns_def run_responds run_try_catch run_await_query pg_simps pg_select_all_columns
          del: pg_query.simps)
  then show ?thesis using run_reg_insert [OF assms(1) refl] by simp
qed

lemma run_reg_exists:
  assumes "''email'' \<in> set (user_cols d')" "user_cols d' = user_cols d"
  shows "run pg (responds (try_catch (reg_exists env req em) (register_catch env))) (c, d') =
     (if registered d' em then (Inr conflict, (c, d'))
      else (Inr created, (c, with_user d' (register_row env req em d'))))"
proof (cases "registered d' em")
  case True
  then have "map (\<lambda>r. [(''?column?'', JNum 1)])
      (filter (\<lambda>r. sql_eq (cell r ''email'') (JStr em)) (users d')) \<noteq> []"
    using exists_rows_empty [of "em" d'] by blast
  with True show ?thesis
    by (simp add: reg_exists_def run_responds run_try_catch run_await_query pg_simps
          pg_select_exists [OF assms(1)] del: pg_query.simps)
next
  case False
  then have "map (\<lambda>r. [(''?column?'', JNum 1)])
      (filter (\<lambda>r. sql_eq (cell r ''email'') (JStr em)) (users d')) = []"
    using exists_rows_empty [of "em" d'] by blast
  then have "run pg (responds (try_catch (reg_exists env req em) (register_catch env))) (c, d')
      = run pg (responds (try_catch (reg_columns env req em) (register_catch env))) (c, d')"
    by (simp add: reg_exists_def run_responds run_try_catch run_await_query pg_simps
          pg_select_exists [OF assms(1)] del: pg_query.simps)
  then show ?thesis using run_reg_columns [OF assms] by simp
qed

lemma run_reg_connect:
  assumes "''email'' \<in> set (user_cols d')" "user_cols d' = user_cols d"
  shows "run pg (responds (try_catch (await_connect (reg_exists env req em)) (register_catch env))) (c, d') =
     (if registered d' em then (Inr conflict, (c, d'))
      else (Inr created, (c, with_user d' (register_row env req em d'))))"
proof -
  have "run pg (responds (try_catch (await_connect (reg_exists env req em)) (register_catch env))) (c, d')
      = run pg (responds (try_catch (reg_exists env req em) (register_catch env))) (c, d')"
    by (simp add: run_responds run_try_catch run_await_connect pg_simps)
  then show ?thesis using run_reg_exists [OF assms] by simp
qed


lemma run_register_pg:
  assumes "valid_registration req" "normalized_email env req = Inr em"
    "''email'' \<in> set (user_cols d)"
  shows "run pg (register env req) (c, d) =
     (if registered d em then (Inr conflict, (c, d))
      else (Inr created, (c, with_user d (register_row env req em d))))"
  using run_reg_connect [OF assms(3) refl] by (simp add: register_valid [OF assms(1,2)])










lemma with_user_cols: "user_cols (with_user d r) = user_cols d"
  by (simp add: with_user_def)

lemma registered_with_user:
  "''email'' \<in> set (user_cols d) \<Longrightarrow>
   registered (with_user d (register_row env req em d)) em"
  by (simp add: registered_def with_user_def register_row_email sql_eq_def sql_null_def)






lemma example_valid:
  "valid_registration (example_request None [(''email'', JStr ''A@x.com''), (''password'', JStr ''secret1'')])"
  "valid_registration (example_request None [(''email'', JStr ''a@X.com''), (''password'', JStr ''secret2'')])"
  "normalized_email example_env
     (example_request None [(''email'', JStr ''A@x.com''), (''password'', JStr ''secret1'')]) = Inr ''a@x.com''"
  "normalized_email example_env
     (example_request None [(''email'', JStr ''a@X.com''), (''password'', JStr ''secret2'')]) = Inr ''a@x.com''"
  by (simp_all add: valid_registration_def normalized_email_def example_request_def
        body_or_empty_def example_env_def ascii_lower_def lower_char_def js_length_def)

lemma register_invalid:
  "\<not> valid_registration req \<Longrightarrow> \<exists>msg. register env req = Done (Inr (failure 400 msg))"
  by (auto simp: valid_registration_def register_def Let_def split: jsval.splits)

lemma register_throws:
  "valid_registration req \<Longrightarrow> normalized_email env req = Inl thrown \<Longrightarrow>
   register env req = Done (Inl thrown)"
  by (auto simp: valid_registration_def normalized_email_def register_def Let_def
        split: jsval.splits sum.splits)

lemma register_no_email_column:
  assumes "valid_registration req" "normalized_email env req = Inr em" "''email'' \<notin> set (user_cols d)"
  shows "\<exists>r. fst (run pg (register env req) (c, d)) = Inr r \<and> status r = 500"
proof -
  have m: "missing_col d [''email''] = Some ''email''"
    using assms(3) by (simp add: missing_col_def)
  have n: "\<not> matches_duplicate_key ''column email does not exist''"
    by (simp add: matches_duplicate_key_def ascii_lower_def lower_char_def)
  show ?thesis
    using n
    by (simp add: register_valid [OF assms(1,2)] run_responds run_try_catch run_await_connect
          run_await_query reg_exists_def pg_simps m register_catch_def undefined_column_def)
qed



lemma run_login_success:
  assumes "id_column_known c d" "''email'' \<in> set (user_cols d)" "''password_hash'' \<in> set (user_cols d)"
    and "truthy (field (body_or_empty req) ''email'')" "truthy (field (body_or_empty req) ''password'')"
    and "normalized_email env req = Inr em"
    and "filter (\<lambda>r. sql_eq (cell r ''email'') (JStr em)) (users d) = u # rest"
    and "truthy (cell u ''password_hash'')"
    and "bcrypt_compare env (field (body_or_empty req) ''password'') (cell u ''password_hash'') = Inr True"
    and "jwt_sign env (JObj [(''userId'', cell u (the_string (id_column c d)))]) ''1h'' = Inr token"
  shows "fst (run pg (login env req) (c, d)) =
     Inr \<lparr>status = 200, body = JObj [(''success'', JBool True), (''token'', JStr token)]\<rparr>"
proof -
  from assms(6) obtain str where t: "js_String env (field (body_or_empty req) ''email'') = Inr str"
    and em: "em = toLowerCase env str"
    by (auto simp: normalized_email_def split: sum.splits)
  show ?thesis
    using assms(4,5,7-10) t
    by (simp add: login_def Let_def run_responds run_try_catch run_await_connect pg_simps
          run_login_lookup [OF assms(1-3)] login_rows_def cell_password_hash
          eval_id_column [OF assms(1)] cell_def em)
qed

lemma login_throws:
  "truthy (field (body_or_empty req) ''email'') \<Longrightarrow> truthy (field (body_or_empty req) ''password'') \<Longrightarrow>
   normalized_email env req = Inl thrown \<Longrightarrow> login env req = Done (Inl thrown)"
  by (auto simp: normalized_email_def login_def Let_def split: sum.splits)

text \<open>
  Claim C2. register and login depend on the email only through its truthiness and the
  lowercase form of \<^verbatim>\<open>String(email)\<close>: two requests that differ only in an email with
  the same lowercase form are the same program. The row a successful registration
  stores holds the lowercase email, and login looks the user up by the lowercase email:
  with the right password it answers 200 with a token for the first row whose email is
  the lowercase form. Hence, when a registration succeeds (201) and a valid
  registration follows whose email has the same lowercase form, a case variant of the
  first, the second one is answered 409 Email already registered and changes nothing:
  one success and one conflict. When \<^verbatim>\<open>String(email)\<close> throws, which it does before
  the handler's \<^verbatim>\<open>try\<close> block, the handler ends with that exception and neither
  compares with the store nor writes to it.
\<close>

theorem email_case_insensitive:
  "(truthy e = truthy e' \<and> js_String env e = Inr s \<and> js_String env e' = Inr s'
      \<and> toLowerCase env s = toLowerCase env s' \<longrightarrow>
      register env (req\<lparr>req_body := JObj ((''email'', e) # kvs)\<rparr>)
        = register env (req\<lparr>req_body := JObj ((''email'', e') # kvs)\<rparr>)
      \<and> login env (req\<lparr>req_body := JObj ((''email'', e) # kvs)\<rparr>)
        = login env (req\<lparr>req_body := JObj ((''email'', e') # kvs)\<rparr>))
   \<and> (normalized_email env1 req1 = Inr em \<and> normalized_email env2 req2 = Inr em
      \<and> valid_registration req2
      \<and> run pg (register env1 req1) (c, d) = (Inr r1, cs1) \<and> status r1 = 201 \<longrightarrow>
        r1 = created
        \<and> (\<exists>stored. cs1 = (c, with_user d stored) \<and> cell stored ''email'' = JStr em)
        \<and> run pg (register env2 req2) cs1 = (Inr (failure 409 ''Email already registered''), cs1))
   \<and> (id_column_known c d \<and> ''email'' \<in> set (user_cols d) \<and> ''password_hash'' \<in> set (user_cols d)
      \<and> truthy (field (body_or_empty req) ''email'') \<and> normalized_email env req = Inr em
      \<and> truthy (field (body_or_empty req) ''password'')
      \<and> filter (\<lambda>r. sql_eq (cell r ''email'') (JStr em)) (users d) = u # rest
      \<and> truthy (cell u ''password_hash'')
      \<and> bcrypt_compare env (field (body_or_empty req) ''password'') (cell u ''password_hash'') = Inr True
      \<and> jwt_sign env (JObj [(''userId'', cell u (the_string (id_column c d)))]) ''1h'' = Inr token \<longrightarrow>
        fst (run pg (login env req) (c, d)) =
          Inr \<lparr>status = 200, body = JObj [(''success'', JBool True), (''token'', JStr token)]\<rparr>)
   \<and> (valid_registration req \<and> normalized_email env req = Inl thrown \<longrightarrow>
        register env req = Done (Inl thrown))
   \<and> (truthy (field (body_or_empty req) ''email'') \<and> truthy (field (body_or_empty req) ''password'')
      \<and> normalized_email env req = Inl thrown \<longrightarrow>
        login env req = Done (Inl thrown))"
proof (intro conjI impI)
  assume a: "truthy e = truthy e' \<and> js_String env e = Inr s \<and> js_String env e' = Inr s'
      \<and> toLowerCase env s = toLowerCase env s'"
  then have t: "truthy e = truthy e'" and js: "js_String env e = Inr s" "js_String env e' = Inr s'"
    and l: "toLowerCase env s = toLowerCase env s'"
    by blast+
  have b: "body_or_empty (req\<lparr>req_body := JObj ((''email'', x) # kvs)\<rparr>) = JObj ((''email'', x) # kvs)"
    for x by (simp add: body_or_empty_def)
  have f: "field (JObj ((''email'', x) # kvs)) ''email'' = x"
    "field (JObj ((''email'', x) # kvs)) ''password'' = field (JObj kvs) ''password''"
    "field (JObj ((''email'', x) # kvs)) ''name'' = field (JObj kvs) ''name''"
    for x by simp_all
  show "register env (req\<lparr>req_body := JObj ((''email'', e) # kvs)\<rparr>)
        = register env (req\<lparr>req_body := JObj ((''email'', e') # kvs)\<rparr>)"
    unfolding register_def Let_def b f t js sum.case l by (rule refl)
  show "login env (req\<lparr>req_body := JObj ((''email'', e) # kvs)\<rparr>)
        = login env (req\<lparr>req_body := JObj ((''email'', e') # kvs)\<rparr>)"
    unfolding login_def Let_def b f t js sum.case l by (rule refl)
next
  assume a: "normalized_email env1 req1 = Inr em \<and> normalized_email env2 req2 = Inr em
      \<and> valid_registration req2
      \<and> run pg (register env1 req1) (c, d) = (Inr r1, cs1) \<and> status r1 = 201"
  then have n1: "normalized_email env1 req1 = Inr em"
    and n2: "normalized_email env2 req2 = Inr em" and v2: "valid_registration req2"
    and run1: "run pg (register env1 req1) (c, d) = (Inr r1, cs1)" and ok: "status r1 = 201"
    by blast+
  have v1: "valid_registration req1"
  proof (rule ccontr)
    assume "\<not> valid_registration req1"
    then obtain msg where "register env1 req1 = Done (Inr (failure 400 msg))"
      using register_invalid by blast
    with run1 ok show False by (auto simp: failure_def)
  qed
  have col: "''email'' \<in> set (user_cols d)"
  proof (rule ccontr)
    assume "''email'' \<notin> set (user_cols d)"
    from register_no_email_column [OF v1 n1 this, of c] run1 ok show False by auto
  qed
  have fresh: "\<not> registered d em"
  proof
    assume "registered d em"
    with run_register_pg [OF v1 n1 col, of c] run1 ok show False
      by (auto simp: conflict_def failure_def)
  qed
  from run_register_pg [OF v1 n1 col, of c] fresh run1
  have r1: "r1 = created" and cs1: "cs1 = (c, with_user d (register_row env1 req1 em d))"
    by auto
  have "registered (with_user d (register_row env1 req1 em d)) em"
    using registered_with_user [OF col, of env1 req1 em] by simp
  then have "run pg (register env2 req2) cs1 = (Inr conflict, cs1)"
    using run_register_pg [OF v2 n2, of "with_user d (register_row env1 req1 em d)" c] col
    by (simp add: cs1 with_user_cols)
  with r1 show "r1 = created"
    and "run pg (register env2 req2) cs1 = (Inr (failure 409 ''Email already registered''), cs1)"
    by (simp_all add: conflict_def)
  from cs1 register_row_email [OF col, of env1 req1 em]
  show "\<exists>stored. cs1 = (c, with_user d stored) \<and> cell stored ''email'' = JStr em"
    by auto
next
  assume a: "id_column_known c d \<and> ''email'' \<in> set (user_cols d) \<and> ''password_hash'' \<in> set (user_cols d)
      \<and> truthy (field (body_or_empty req) ''email'') \<and> normalized_email env req = Inr em
      \<and> truthy (field (body_or_empty req) ''password'')
      \<and> filter (\<lambda>r. sql_eq (cell r ''email'') (JStr em)) (users d) = u # rest
      \<and> truthy (cell u ''password_hash'')
      \<and> bcrypt_compare env (field (body_or_empty req) ''password'') (cell u ''password_hash'') = Inr True
      \<and> jwt_sign env (JObj [(''userId'', cell u (the_string (id_column c d)))]) ''1h'' = Inr token"
  then have k: "id_column_known c d" and c1: "''email'' \<in> set (user_cols d)"
    and c2: "''password_hash'' \<in> set (user_cols d)"
    and te: "truthy (field (body_or_empty req) ''email'')"
    and n: "normalized_email env req = Inr em"
    and pw: "truthy (field (body_or_empty req) ''password'')"
    and rows: "filter (\<lambda>r. sql_eq (cell r ''email'') (JStr em)) (users d) = u # rest"
    and h: "truthy (cell u ''password_hash'')"
    and cmp: "bcrypt_compare env (field (body_or_empty req) ''password'') (cell u ''password_hash'') = Inr True"
    and sign: "jwt_sign env (JObj [(''userId'', cell u (the_string (id_column c d)))]) ''1h'' = Inr token"
    by blast+
  from run_login_success [OF k c1 c2 te pw n rows h cmp sign]
  show "fst (run pg (login env req) (c, d)) =
          Inr \<lparr>status = 200, body = JObj [(''success'', JBool True), (''token'', JStr token)]\<rparr>"
    .
next
  assume "valid_registration req \<and> normalized_email env req = Inl thrown"
  then show "register env req = Done (Inl thrown)"
    using register_throws by blast
next
  assume "truthy (field (body_or_empty req) ''email'') \<and> truthy (field (body_or_empty req) ''password'')
      \<and> normalized_email env req = Inl thrown"
  then show "login env req = Done (Inl thrown)"
    using login_throws by blast
qed

theorem email_case_insensitive_witness:
  "register example_env (example_request None [(''email'', JStr ''A@x.com''), (''password'', JStr ''secret1'')])
     = register example_env (example_request None [(''email'', JStr ''a@X.COM''), (''password'', JStr ''secret1'')])
   \<and> run pg (register example_env
        (example_request None [(''email'', JStr ''a@X.com''), (''password'', JStr ''secret2'')]))
        (JNull, example_users_db)
      = (Inr (failure 409 ''Email already registered''), (JNull, example_users_db))
   \<and> fst (run pg (login example_env
        (example_request None [(''email'', JStr ''A@X.com''), (''password'', JStr ''secret1'')]))
        (JNull, example_users_db))
      = Inr \<lparr>status = 200, body = JObj [(''success'', JBool True), (''token'', JStr ''tok:1'')]\<rparr>
   \<and> register example_env
        (example_request None [(''email'', JObj [(''toString'', JNum 1)]), (''password'', JStr ''secret1'')])
      = Done (Inl cannot_convert)"
proof (intro conjI)
  have "truthy (JStr ''A@x.com'') = truthy (JStr ''a@X.COM'')
     \<and> js_String example_env (JStr ''A@x.com'') = Inr ''A@x.com''
     \<and> js_String example_env (JStr ''a@X.COM'') = Inr ''a@X.COM''
     \<and> toLowerCase example_env ''A@x.com'' = toLowerCase example_env ''a@X.COM''"
    by (simp add: example_env_def ascii_lower_def lower_char_def)
  from mp [OF conjunct1 [OF email_case_insensitive
        [where e = "JStr ''A@x.com''" and e' = "JStr ''a@X.COM''" and env = example_env
           and req = "example_request None []"
           and kvs = "[(''password'', JStr ''secret1'')]"]] this]
  show "register example_env (example_request None [(''email'', JStr ''A@x.com''), (''password'', JStr ''secret1'')])
     = register example_env (example_request None [(''email'', JStr ''a@X.COM''), (''password'', JStr ''secret1'')])"
    by (simp add: example_request_def)
next
  let ?r1 = "example_request None [(''email'', JStr ''A@x.com''), (''password'', JStr ''secret1'')]"
  let ?r2 = "example_request None [(''email'', JStr ''a@X.com''), (''password'', JStr ''secret2'')]"
  have nm: "field (body_or_empty ?r1) ''name'' = JUndefined"
    "the_string (field (body_or_empty ?r1) ''password'') = ''secret1''"
    by (simp_all add: example_request_def body_or_empty_def)
  have row: "register_row example_env ?r1 ''a@x.com'' example_db =
      [(''user_id'', JNum 1), (''email'', JStr ''a@x.com''), (''name'', JStr ''a''),
       (''password_hash'', JStr ''h:secret1''), (''created_at'', JNum 100)]"
    by (simp add: register_row_def nm insert_columns_def new_row_def
          column_default_def example_db_def example_env_def)
  have fresh: "\<not> registered example_db ''a@x.com''"
    by (simp add: registered_def example_db_def)
  have col: "''email'' \<in> set (user_cols example_db)"
    by (simp add: example_db_def)
  have first: "run pg (register example_env ?r1) (JNull, example_db)
      = (Inr created, (JNull, example_users_db))"
    using run_register_pg [OF example_valid(1) example_valid(3) col, of JNull] fresh
    by (simp add: row with_user_def example_users_db_def) (simp add: example_db_def)
  have h: "normalized_email example_env ?r1 = Inr ''a@x.com''
      \<and> normalized_email example_env ?r2 = Inr ''a@x.com'' \<and> valid_registration ?r2
      \<and> run pg (register example_env ?r1) (JNull, example_db) = (Inr created, (JNull, example_users_db))
      \<and> status created = 201"
    using first by (simp add: example_valid created_def)
  from mp [OF conjunct1 [OF conjunct2 [OF email_case_insensitive]] h]
  show "run pg (register example_env ?r2) (JNull, example_users_db)
      = (Inr (failure 409 ''Email already registered''), (JNull, example_users_db))"
    by blast
next
  let ?r = "example_request None [(''email'', JStr ''A@X.com''), (''password'', JStr ''secret1'')]"
  let ?u = "[(''user_id'', JNum 1), (''email'', JStr ''a@x.com''), (''name'', JStr ''a''),
       (''password_hash'', JStr ''h:secret1''), (''created_at'', JNum 100)]"
  have i: "the_string (id_column JNull example_users_db) = ''user_id''"
    by (simp add: id_column_def example_users_db_def example_db_def)
  have n: "normalized_email example_env ?r = Inr ''a@x.com''"
    by (simp add: normalized_email_def example_request_def body_or_empty_def example_env_def
          ascii_lower_examples)
  have h: "id_column_known JNull example_users_db \<and> ''email'' \<in> set (user_cols example_users_db)
      \<and> ''password_hash'' \<in> set (user_cols example_users_db)
      \<and> truthy (field (body_or_empty ?r) ''email'')
      \<and> normalized_email example_env ?r = Inr ''a@x.com''
      \<and> truthy (field (body_or_empty ?r) ''password'')
      \<and> filter (\<lambda>r. sql_eq (cell r ''email'') (JStr ''a@x.com''))
            (users example_users_db) = ?u # []
      \<and> truthy (cell ?u ''password_hash'')
      \<and> bcrypt_compare example_env (field (body_or_empty ?r) ''password'') (cell ?u ''password_hash'')
          = Inr True
      \<and> jwt_sign example_env (JObj [(''userId'', cell ?u (the_string (id_column JNull example_users_db)))])
          ''1h'' = Inr ''tok:1''"
    unfolding i n
    by (simp add: id_column_known_def id_column_def example_users_db_def example_db_def
          example_request_def body_or_empty_def sql_eq_def
          sql_null_def cell_def example_env_def decimal_def digits.simps)
  from mp [OF conjunct1 [OF conjunct2 [OF conjunct2 [OF email_case_insensitive]]] h]
  show "fst (run pg (login example_env ?r) (JNull, example_users_db))
      = Inr \<lparr>status = 200, body = JObj [(''success'', JBool True), (''token'', JStr ''tok:1'')]\<rparr>"
    .
next
  let ?r = "example_request None [(''email'', JObj [(''toString'', JNum 1)]), (''password'', JStr ''secret1'')]"
  have h: "valid_registration ?r \<and> normalized_email example_env ?r = Inl cannot_convert"
    by (simp add: valid_registration_def normalized_email_def example_request_def body_or_empty_def
          js_length_def)
  from mp [OF conjunct1 [OF conjunct2 [OF conjunct2 [OF conjunct2 [OF email_case_insensitive]]]] h]
  show "register example_env ?r = Done (Inl cannot_convert)" .
qed

end
